theory Spec2Isabelle
  imports Main "HOL-Library.Word"
begin

section \<open>Strings and numbers of the source language\<close>

text \<open>
  A string of the source is a sequence of UTF-16 code units; \<open>length\<close>, \<open>slice\<close>,
  \<open>trim\<close> and the regular expressions of \<open>brave.ts\<close> all work on code units.
  A literal of the source is written \<open>str ''...''\<close>.
\<close>

type_synonym jschar = "16 word"
type_synonym jsstring = "jschar list"

definition str :: "string \<Rightarrow> jsstring" where
  "str s = map of_char s"

text \<open>Decimal rendering of a number (\<open>toString\<close>, template literals).\<close>

fun showNat :: "nat \<Rightarrow> jsstring" where
  "showNat n = (if n < 10 then [48 + of_nat n]
                else showNat (n div 10) @ [48 + of_nat (n mod 10)])"

declare showNat.simps [simp del]

definition showInt :: "int \<Rightarrow> jsstring" where
  "showInt i = (if i < 0 then str ''-'' @ showNat (nat (- i)) else showNat (nat i))"

text \<open>
  \<open>xs.slice(0, e)\<close>: a negative end counts from the end of the sequence.
\<close>

definition slice0 :: "int \<Rightarrow> 'a list \<Rightarrow> 'a list" where
  "slice0 e xs = (if 0 \<le> e then take (nat e) xs else take (nat (int (length xs) + e)) xs)"

text \<open>
  A value that was thrown: an \<open>Error\<close> object with its message, or any other value,
  kept as what \<open>String(error)\<close> gives for it.
\<close>

datatype thrown = Error jsstring | NonError jsstring

section \<open>Configuration (config/index.ts)\<close>

datatype safeSearch = strict | moderate | off

record RateLimit =
  perSecond :: int
  perMonth :: int

record SearchConfig =
  maxQueryLength :: int
  maxResults :: int
  defaultResults :: int
  defaultSafeSearch :: safeSearch

record BraveConfig =
  apiKey :: jsstring
  baseUrl :: jsstring

record Config =
  rateLimit :: RateLimit
  search :: SearchConfig
  brave :: BraveConfig

text \<open>
  The configuration object of the source; \<open>test\<close> is whether \<open>NODE_ENV\<close> is \<open>test\<close>, and
  \<open>key\<close> is the API key of the environment.
\<close>

definition config :: "bool \<Rightarrow> jsstring \<Rightarrow> Config" where
  "config test key =
     \<lparr> rateLimit = \<lparr> perSecond = (if test then 5 else 20),
                     perMonth = (if test then 1000 else 20000000) \<rparr>,
       search = \<lparr> maxQueryLength = 300, maxResults = 10, defaultResults = 5,
                  defaultSafeSearch = strict \<rparr>,
       brave = \<lparr> apiKey = key,
                 baseUrl = str ''https://api.search.brave.com/res/v1/web/search'' \<rparr> \<rparr>"

section \<open>Rate limiter\<close>

record RequestCount =
  second :: int
  month :: int
  lastReset :: int

text \<open>
  \<open>checkRateLimit\<close> reads the clock (\<open>now\<close>, milliseconds) and mutates the module-level
  \<open>requestCount\<close>; the model takes both and returns the outcome with the new state.
  The window reset happens before the ceilings are compared, also when the check
  then throws.
\<close>

definition resetWindow :: "int \<Rightarrow> RequestCount \<Rightarrow> RequestCount" where
  "resetWindow now rc =
     (if now - lastReset rc > 1000 then rc\<lparr> second := 0, lastReset := now \<rparr> else rc)"

definition checkRateLimit :: "Config \<Rightarrow> int \<Rightarrow> RequestCount \<Rightarrow> (thrown + unit) \<times> RequestCount" where
  "checkRateLimit cfg now rc =
     (let rc1 = resetWindow now rc in
      if second rc1 \<ge> perSecond (rateLimit cfg) \<or> month rc1 \<ge> perMonth (rateLimit cfg)
      then (Inl (Error (str ''Rate limit exceeded'')), rc1)
      else (Inr (), rc1\<lparr> second := second rc1 + 1, month := month rc1 + 1 \<rparr>))"

text \<open>A sequence of checks at the given clock readings, each on the state the last one left.\<close>

fun checkAll :: "Config \<Rightarrow> int list \<Rightarrow> RequestCount \<Rightarrow> (thrown + unit) list \<times> RequestCount" where
  "checkAll cfg [] rc = ([], rc)"
| "checkAll cfg (t # ts) rc =
     (case checkRateLimit cfg t rc of
        (r, rc1) \<Rightarrow> (case checkAll cfg ts rc1 of (rs, rc2) \<Rightarrow> (r # rs, rc2)))"

section \<open>Query sanitizer\<close>

text \<open>The character class \<open>[\r\n\t]\<close>.\<close>

definition isCrLfTab :: "jschar \<Rightarrow> bool" where
  "isCrLfTab c = (c = 0x0D \<or> c = 0x0A \<or> c = 0x09)"

text \<open>
  The class \<open>\s\<close> of the regular expressions, which is also what \<open>trim\<close> removes:
  the white space and line terminator code points of the language.
\<close>

definition isWhiteSpace :: "jschar \<Rightarrow> bool" where
  "isWhiteSpace c =
     (c = 0x09 \<or> c = 0x0A \<or> c = 0x0B \<or> c = 0x0C \<or> c = 0x0D \<or> c = 0x20 \<or> c = 0xA0
      \<or> c = 0x1680 \<or> (0x2000 \<le> c \<and> c \<le> 0x200A) \<or> c = 0x2028 \<or> c = 0x2029
      \<or> c = 0x202F \<or> c = 0x205F \<or> c = 0x3000 \<or> c = 0xFEFF)"

definition trim :: "jsstring \<Rightarrow> jsstring" where
  "trim s = rev (dropWhile isWhiteSpace (rev (dropWhile isWhiteSpace s)))"

text \<open>
  \<open>s.replace(/[class]+/g, ' ')\<close>: scanning from the left, every maximal run of characters
  of the class is replaced by one space.
\<close>

function replaceRuns :: "(jschar \<Rightarrow> bool) \<Rightarrow> jsstring \<Rightarrow> jsstring" where
  "replaceRuns p [] = []"
| "replaceRuns p (c # cs) =
     (if p c then 0x20 # replaceRuns p (dropWhile p cs) else c # replaceRuns p cs)"
  by pat_completeness auto
termination
  by (relation "measure (\<lambda>(p, s). length s)") (auto simp: le_imp_less_Suc length_dropWhile_le)

definition sanitizeQuery :: "Config \<Rightarrow> jsstring \<Rightarrow> jsstring" where
  "sanitizeQuery cfg query =
     slice0 (maxQueryLength (search cfg))
       (replaceRuns isWhiteSpace (replaceRuns isCrLfTab (trim query)))"

section \<open>Provider response (parsed JSON) and normalized results\<close>

text \<open>
  The body of the provider's answer is whatever \<open>response.json()\<close> parsed: the interfaces
  of \<open>types.ts\<close> say what is expected, and nothing checks them at run time, so the model
  takes any JSON value. An object is the list of its own properties, each name once.
  Numbers are the integers (fractions are outside the model). A value of the language
  is a JSON value or \<open>undefined\<close>, which is \<open>None\<close>.
\<close>

datatype json =
  JNull | JBool bool | JNum int | JStr jsstring | JArr "json list"
  | JObj "(jsstring \<times> json) list"

type_synonym jsvalue = "json option"

text \<open>
  Reading a property. \<open>getOwn v k\<close> is \<open>v.k\<close> for a value that is not null: the own
  property of an object, and undefined for an array, a string, a number or a boolean
  (none of the names that \<open>brave.ts\<close> reads is a property of their prototypes).
  \<open>getProp v k\<close> is \<open>v.k\<close>, which throws a TypeError on null. \<open>getOpt v k\<close> is \<open>v?.k\<close>.
\<close>

definition getOwn :: "json \<Rightarrow> jsstring \<Rightarrow> jsvalue" where
  "getOwn v k = (case v of JObj props \<Rightarrow> map_of props k | _ \<Rightarrow> None)"

definition readError :: "jsstring \<Rightarrow> thrown" where
  "readError k =
     Error (str ''Cannot read properties of null (reading '' @ [0x27] @ k @ [0x27] @ str '')'')"

definition getProp :: "json \<Rightarrow> jsstring \<Rightarrow> thrown + jsvalue" where
  "getProp v k = (if v = JNull then Inl (readError k) else Inr (getOwn v k))"

definition getOpt :: "jsvalue \<Rightarrow> jsstring \<Rightarrow> jsvalue" where
  "getOpt v k = (case v of None \<Rightarrow> None | Some j \<Rightarrow> getOwn j k)"

text \<open>\<open>Array.isArray(v)\<close>, with the elements when it holds.\<close>

definition arrayOf :: "jsvalue \<Rightarrow> json list option" where
  "arrayOf v = (case v of Some (JArr xs) \<Rightarrow> Some xs | _ \<Rightarrow> None)"

text \<open>Truthiness, as \<open>if (v)\<close>, \<open>v && ...\<close> and \<open>v || ...\<close> test it.\<close>

definition truthy :: "jsvalue \<Rightarrow> bool" where
  "truthy v =
     (case v of
        None \<Rightarrow> False
      | Some JNull \<Rightarrow> False
      | Some (JBool b) \<Rightarrow> b
      | Some (JNum i) \<Rightarrow> i \<noteq> 0
      | Some (JStr s) \<Rightarrow> s \<noteq> []
      | Some (JArr xs) \<Rightarrow> True
      | Some (JObj props) \<Rightarrow> True)"

text \<open>
  The conversion to a string that a template literal applies. An array joins its
  elements with commas, null elements as the empty string. An object gives
  \<open>[object Object]\<close> through the method it inherits; when it has an own property
  \<open>toString\<close>, that is a JSON value and not a function, and the conversion throws a
  TypeError.
\<close>

fun toStr :: "json \<Rightarrow> thrown + jsstring" and joinElems :: "json list \<Rightarrow> thrown + jsstring" where
  "toStr JNull = Inr (str ''null'')"
| "toStr (JBool b) = Inr (if b then str ''true'' else str ''false'')"
| "toStr (JNum i) = Inr (showInt i)"
| "toStr (JStr s) = Inr s"
| "toStr (JArr xs) = joinElems xs"
| "toStr (JObj props) =
     (if map_of props (str ''toString'') = None then Inr (str ''[object Object]'')
      else Inl (Error (str ''Cannot convert object to primitive value'')))"
| "joinElems [] = Inr []"
| "joinElems (x # xs) =
     (case (if x = JNull then Inr [] else toStr x) of
        Inl e \<Rightarrow> Inl e
      | Inr s \<Rightarrow>
          if xs = [] then Inr s
          else (case joinElems xs of Inl e \<Rightarrow> Inl e | Inr t \<Rightarrow> Inr (s @ str '','' @ t)))"

definition template :: "jsvalue \<Rightarrow> thrown + jsstring" where
  "template v = (case v of None \<Rightarrow> Inr (str ''undefined'') | Some j \<Rightarrow> toStr j)"

text \<open>
  A normalized result. Its fields hold what the provider's record had: the declared
  type says string, the value can be any value.
\<close>

datatype resultType = Web | News | Video

record SearchResult =
  title :: jsvalue
  description :: jsvalue
  url :: jsvalue
  resultType :: "resultType option"

section \<open>Result normalizer (extractBraveResults)\<close>

text \<open>\<open>xs.map(f)\<close> with an \<open>f\<close> that can throw: the first throw ends the map.\<close>

fun mapE :: "('a \<Rightarrow> thrown + 'b) \<Rightarrow> 'a list \<Rightarrow> thrown + 'b list" where
  "mapE f [] = Inr []"
| "mapE f (x # xs) =
     (case f x of
        Inl e \<Rightarrow> Inl e
      | Inr y \<Rightarrow> (case mapE f xs of Inl e \<Rightarrow> Inl e | Inr ys \<Rightarrow> Inr (y # ys)))"

text \<open>\<open>d || s || ''\<close>.\<close>

definition descriptionOr :: "jsvalue \<Rightarrow> jsvalue \<Rightarrow> jsvalue" where
  "descriptionOr d s = (if truthy d then d else if truthy s then s else Some (JStr []))"

text \<open>
  The callbacks of the three maps. The first property read is \<open>result.title\<close>, which
  throws when the element is null.
\<close>

definition webResult :: "json \<Rightarrow> thrown + SearchResult" where
  "webResult result =
     (if result = JNull then Inl (readError (str ''title''))
      else Inr \<lparr> title = getOwn result (str ''title''),
                 description = descriptionOr (getOwn result (str ''description''))
                                             (getOwn result (str ''snippet'')),
                 url = getOwn result (str ''url''),
                 resultType = Some Web \<rparr>)"

definition newsResult :: "json \<Rightarrow> thrown + SearchResult" where
  "newsResult result =
     (if result = JNull then Inl (readError (str ''title''))
      else Inr \<lparr> title = getOwn result (str ''title''),
                 description = getOwn result (str ''description''),
                 url = getOwn result (str ''url''),
                 resultType = Some News \<rparr>)"

definition videoResult :: "json \<Rightarrow> thrown + SearchResult" where
  "videoResult result =
     (if result = JNull then Inl (readError (str ''title''))
      else Inr \<lparr> title = getOwn result (str ''title''),
                 description = getOwn result (str ''description''),
                 url = getOwn result (str ''url''),
                 resultType = Some Video \<rparr>)"

text \<open>
  The three lists. \<open>data.web\<close> throws when the body is null. A member that is not an
  array leaves its list empty; the warning that the source logs then is not part of the
  model.
\<close>

definition webResults :: "json \<Rightarrow> thrown + SearchResult list" where
  "webResults data =
     (case getProp data (str ''web'') of
        Inl e \<Rightarrow> Inl e
      | Inr w \<Rightarrow> (case arrayOf w of Some rs \<Rightarrow> mapE webResult rs | None \<Rightarrow> Inr []))"

definition newsResults :: "json \<Rightarrow> thrown + SearchResult list" where
  "newsResults data =
     (case getProp data (str ''news'') of
        Inl e \<Rightarrow> Inl e
      | Inr n \<Rightarrow> (case arrayOf (getOpt n (str ''results'')) of
                    Some rs \<Rightarrow> mapE newsResult rs
                  | None \<Rightarrow> Inr []))"

definition videoResults :: "json \<Rightarrow> thrown + SearchResult list" where
  "videoResults data =
     (case getProp data (str ''videos'') of
        Inl e \<Rightarrow> Inl e
      | Inr v \<Rightarrow> (case arrayOf (getOpt v (str ''results'')) of
                    Some rs \<Rightarrow> mapE videoResult rs
                  | None \<Rightarrow> Inr []))"

text \<open>\<open>data.mixed?.main\<close>, read once the three lists are built.\<close>

definition mixedMain :: "json \<Rightarrow> jsvalue" where
  "mixedMain data = getOpt (getOwn data (str ''mixed'')) (str ''main'')"

text \<open>The \<open>switch\<close> on the directive's type (strict equality); \<open>None\<close> is the \<open>default\<close> branch.\<close>

definition sourceResults ::
  "SearchResult list \<Rightarrow> SearchResult list \<Rightarrow> SearchResult list \<Rightarrow> jsvalue \<Rightarrow> SearchResult list option" where
  "sourceResults ws ns vs ty =
     (if ty = Some (JStr (str ''web'')) then Some ws
      else if ty = Some (JStr (str ''news'')) then Some ns
      else if ty = Some (JStr (str ''videos'')) then Some vs
      else None)"

text \<open>What one directive pushes, given the list it resolved to.\<close>

definition pushed :: "json \<Rightarrow> SearchResult list \<Rightarrow> SearchResult list" where
  "pushed mixedItem src =
     (if truthy (getOwn mixedItem (str ''all'')) then src
      else case getOwn mixedItem (str ''index'') of
             Some (JNum i) \<Rightarrow> (if 0 \<le> i \<and> i < int (length src) then [src ! nat i] else [])
           | _ \<Rightarrow> [])"

text \<open>
  The \<open>for\<close> loop over \<open>data.mixed.main\<close>, with \<open>allResults\<close> as accumulator.
  \<open>mixedItem.type\<close> throws when the element is null. The \<open>default\<close> branch builds its
  warning with the type in a template literal, which can throw, and then \<open>continue\<close> goes
  to the next directive without the length test; \<open>break\<close> leaves the loop.
\<close>

fun mixedLoop ::
  "SearchResult list \<Rightarrow> SearchResult list \<Rightarrow> SearchResult list \<Rightarrow> int \<Rightarrow>
   SearchResult list \<Rightarrow> json list \<Rightarrow> thrown + SearchResult list" where
  "mixedLoop ws ns vs count allResults [] = Inr allResults"
| "mixedLoop ws ns vs count allResults (mixedItem # rest) =
     (case getProp mixedItem (str ''type'') of
        Inl e \<Rightarrow> Inl e
      | Inr ty \<Rightarrow>
          (case sourceResults ws ns vs ty of
             None \<Rightarrow>
               (case template ty of
                  Inl e \<Rightarrow> Inl e
                | Inr warning \<Rightarrow> mixedLoop ws ns vs count allResults rest)
           | Some src \<Rightarrow>
               (let allResults1 = allResults @ pushed mixedItem src in
                if int (length allResults1) \<ge> count then Inr allResults1
                else mixedLoop ws ns vs count allResults1 rest)))"

definition extractBraveResults :: "json \<Rightarrow> int \<Rightarrow> thrown + SearchResult list" where
  "extractBraveResults data count =
     (case webResults data of
        Inl e \<Rightarrow> Inl e
      | Inr ws \<Rightarrow>
     (case newsResults data of
        Inl e \<Rightarrow> Inl e
      | Inr ns \<Rightarrow>
     (case videoResults data of
        Inl e \<Rightarrow> Inl e
      | Inr vs \<Rightarrow>
     (case (case arrayOf (mixedMain data) of
              Some main \<Rightarrow> mixedLoop ws ns vs count [] main
            | None \<Rightarrow> Inr (ws @ ns @ vs)) of
        Inl e \<Rightarrow> Inl e
      | Inr allResults \<Rightarrow> Inr (slice0 count allResults)))))"

section \<open>Formatting (formatSearchResults)\<close>

definition nl :: jsstring where
  "nl = [0x0A]"

definition dquote :: jsstring where
  "dquote = [0x22]"

text \<open>The markers of the result types, as surrogate pairs.\<close>

definition emoji :: "resultType option \<Rightarrow> jsstring" where
  "emoji t = (if t = Some News then [0xD83D, 0xDCF0]
              else if t = Some Video then [0xD83C, 0xDFAC]
              else [0xD83C, 0xDF10])"

text \<open>
  The text of one result. The title, the description (when it is truthy) and the URL go
  through template literals, in that order.
\<close>

definition resultText :: "nat \<Rightarrow> SearchResult \<Rightarrow> thrown + jsstring" where
  "resultText i r =
     (case template (title r) of
        Inl e \<Rightarrow> Inl e
      | Inr t \<Rightarrow>
     (case (if truthy (description r)
            then (case template (description r) of Inl e \<Rightarrow> Inl e | Inr d \<Rightarrow> Inr (nl @ d))
            else Inr []) of
        Inl e \<Rightarrow> Inl e
      | Inr d \<Rightarrow>
     (case template (url r) of
        Inl e \<Rightarrow> Inl e
      | Inr u \<Rightarrow>
          Inr (str ''### '' @ showNat (i + 1) @ str ''. '' @ emoji (resultType r) @ str '' ''
                 @ t @ d @ nl @ str ''[Read more]('' @ u @ str '')''))))"

fun join :: "jsstring \<Rightarrow> jsstring list \<Rightarrow> jsstring" where
  "join sep [] = []"
| "join sep [x] = x"
| "join sep (x # y # ys) = x @ sep @ join sep (y # ys)"

definition formatSearchResults :: "jsstring \<Rightarrow> SearchResult list \<Rightarrow> thrown + jsstring" where
  "formatSearchResults query results =
     (case mapE (\<lambda>(i, r). resultText i r) (zip [0 ..< length results] results) of
        Inl e \<Rightarrow> Inl e
      | Inr formattedResults \<Rightarrow>
          Inr (str ''Search results for '' @ dquote @ query @ dquote @ str '' (''
                 @ showNat (length results) @ str '' results)'' @ nl @ nl
                 @ join (nl @ nl) formattedResults))"

section \<open>Provider call (fetchBraveSearchResults)\<close>

text \<open>
  The outbound request: the URL built from the configured base (which has no query
  part of its own) with its search parameters, and the headers.
\<close>

record Request =
  base :: jsstring
  searchParams :: "(jsstring \<times> jsstring) list"
  headers :: "(jsstring \<times> jsstring) list"

text \<open>\<open>searchParams.set\<close>: replaces the first pair of that name and removes the others, or appends.\<close>

fun setParam :: "jsstring \<Rightarrow> jsstring \<Rightarrow> (jsstring \<times> jsstring) list \<Rightarrow> (jsstring \<times> jsstring) list" where
  "setParam k v [] = [(k, v)]"
| "setParam k v ((k1, v1) # ps) =
     (if k1 = k then (k, v) # filter (\<lambda>p. fst p \<noteq> k) ps else (k1, v1) # setParam k v ps)"

text \<open>\<open>searchParams.get\<close>: the value of the first pair of that name.\<close>

definition getParam :: "jsstring \<Rightarrow> (jsstring \<times> jsstring) list \<Rightarrow> jsstring option" where
  "getParam k ps = map_of ps k"

text \<open>
  The provider's answer: the status line and what \<open>response.json()\<close> gives, which is a
  thrown value when the body does not parse. \<open>fetch\<close> itself gives a thrown value when
  the network fails.
\<close>

record Response =
  status :: int
  statusText :: jsstring
  json :: "thrown + json"

type_synonym fetch = "Request \<Rightarrow> thrown + Response"

definition ok :: "Response \<Rightarrow> bool" where
  "ok response = (200 \<le> status response \<and> status response \<le> 299)"

definition buildRequest :: "Config \<Rightarrow> jsstring \<Rightarrow> int \<Rightarrow> Request" where
  "buildRequest cfg query count =
     \<lparr> base = baseUrl (brave cfg),
       searchParams =
         setParam (str ''safesearch'') (str ''strict'')
           (setParam (str ''count'') (showInt count)
             (setParam (str ''q'') query [])),
       headers =
         [(str ''X-Subscription-Token'', apiKey (brave cfg)),
          (str ''Accept'', str ''application/json''),
          (str ''Accept-Encoding'', str ''gzip'')] \<rparr>"

text \<open>The request that was sent, and the results or the thrown value.\<close>

definition fetchBraveSearchResults ::
  "Config \<Rightarrow> fetch \<Rightarrow> jsstring \<Rightarrow> int \<Rightarrow> Request \<times> (thrown + SearchResult list)" where
  "fetchBraveSearchResults cfg fetch query count =
     (let request = buildRequest cfg query count in
      (request,
       case fetch request of
         Inl e \<Rightarrow> Inl e
       | Inr response \<Rightarrow>
           if \<not> ok response then
             (if status response = 401
              then Inl (Error (str ''Brave Search API: Unauthorized - check your API key''))
              else if status response = 429
              then Inl (Error (str ''Brave Search API: Rate limit exceeded''))
              else Inl (Error (str ''Brave Search API error: '' @ showInt (status response)
                               @ str '' '' @ statusText response)))
           else (case json response of
                   Inl e \<Rightarrow> Inl e
                 | Inr data \<Rightarrow> extractBraveResults data count)))"

section \<open>Search gateway (performWebSearch)\<close>

definition noResultsText :: "jsstring \<Rightarrow> jsstring" where
  "noResultsText query =
     str ''No results found for '' @ dquote @ query @ dquote
       @ str ''. Try using different keywords or check your spelling.''"

definition errorMessage :: "thrown \<Rightarrow> jsstring" where
  "errorMessage error = (case error of Error message \<Rightarrow> message | NonError s \<Rightarrow> s)"

definition errorText :: "jsstring \<Rightarrow> thrown \<Rightarrow> jsstring" where
  "errorText query error =
     str ''Sorry, there was an error performing your search for '' @ dquote @ query @ dquote
       @ str ''. Error: '' @ errorMessage error @ str ''.''"

text \<open>
  The body of the \<open>try\<close> block: the text it returns or the value it throws, with the
  rate-limit state it leaves and the request it sent, if it came to send one.
\<close>

definition tryBody ::
  "Config \<Rightarrow> int \<Rightarrow> fetch \<Rightarrow> RequestCount \<Rightarrow> jsstring \<Rightarrow> int \<Rightarrow>
   (thrown + jsstring) \<times> RequestCount \<times> Request option" where
  "tryBody cfg now fetch rc query count =
     (case checkRateLimit cfg now rc of
        (Inl e, rc1) \<Rightarrow> (Inl e, rc1, None)
      | (Inr u, rc1) \<Rightarrow>
          (let sanitizedQuery = sanitizeQuery cfg query in
           case fetchBraveSearchResults cfg fetch sanitizedQuery count of
             (request, Inl e) \<Rightarrow> (Inl e, rc1, Some request)
           | (request, Inr results) \<Rightarrow>
               if length results = 0 then (Inr (noResultsText query), rc1, Some request)
               else (formatSearchResults query results, rc1, Some request)))"

text \<open>
  \<open>performWebSearch(query, count, safeSearch)\<close>: an argument that is \<open>None\<close> is undefined
  and takes its default. The safety level is only written to the log.
\<close>

definition countOrDefault :: "Config \<Rightarrow> int option \<Rightarrow> int" where
  "countOrDefault cfg countArg =
     (case countArg of Some c \<Rightarrow> c | None \<Rightarrow> defaultResults (search cfg))"

definition safeSearchOrDefault :: "Config \<Rightarrow> safeSearch option \<Rightarrow> safeSearch" where
  "safeSearchOrDefault cfg safeSearchArg =
     (case safeSearchArg of Some s \<Rightarrow> s | None \<Rightarrow> defaultSafeSearch (search cfg))"

definition performWebSearch ::
  "Config \<Rightarrow> int \<Rightarrow> fetch \<Rightarrow> RequestCount \<Rightarrow> jsstring \<Rightarrow> int option \<Rightarrow> safeSearch option \<Rightarrow>
   jsstring \<times> RequestCount \<times> Request option" where
  "performWebSearch cfg now fetch rc query countArg safeSearchArg =
     (let count = countOrDefault cfg countArg;
          safeSearch = safeSearchOrDefault cfg safeSearchArg
      in case tryBody cfg now fetch rc query count of
           (Inr text, rc1, request) \<Rightarrow> (text, rc1, request)
         | (Inl error, rc1, request) \<Rightarrow> (errorText query error, rc1, request))"

section \<open>The tool handler (index.ts)\<close>

text \<open>
  The handler always passes an object whose \<open>query\<close> is a string, so of the tests of
  \<open>isWebSearchArgs\<close> the one on the length decides.
\<close>

definition isWebSearchArgs :: "Config \<Rightarrow> jsstring \<Rightarrow> bool" where
  "isWebSearchArgs cfg query = (\<not> int (length query) > maxQueryLength (search cfg))"

text \<open>
  The handler of the tool \<open>brave_web_search\<close>. It calls \<open>performWebSearch\<close> with four
  arguments; the function declares three parameters, so the fourth, the freshness
  token, is dropped by the call.
\<close>

definition brave_web_search ::
  "Config \<Rightarrow> int \<Rightarrow> fetch \<Rightarrow> RequestCount \<Rightarrow> jsstring \<Rightarrow> int option \<Rightarrow> safeSearch option \<Rightarrow>
   jsstring option \<Rightarrow> (thrown + jsstring) \<times> RequestCount \<times> Request option" where
  "brave_web_search cfg now fetch rc query countArg safeSearchArg freshness =
     (if \<not> isWebSearchArgs cfg query
      then (Inl (Error (str ''Brave search failed: '' @ str ''Invalid search arguments provided'')),
            rc, None)
      else case performWebSearch cfg now fetch rc query countArg safeSearchArg of
             (text, rc1, request) \<Rightarrow> (Inr text, rc1, request))"

section \<open>The specification's wording, as definitions\<close>

text \<open>
  The sanitizer of the specification: trim leading and trailing white space, collapse
  every run of carriage-return, line-feed and tab characters into one space, collapse
  every run of white space into one space, truncate to the maximum length.
  Trimming keeps what lies between the leading and the trailing white space; collapsing
  turns a character of the class into a space when the character before it is not of
  the class, and removes it otherwise.
\<close>

definition spec_trim :: "jsstring \<Rightarrow> jsstring" where
  "spec_trim s =
     (let leading = length (takeWhile isWhiteSpace s);
          trailing = length (takeWhile isWhiteSpace (rev s))
      in take (length s - leading - trailing) (drop leading s))"

definition spec_collapse :: "(jschar \<Rightarrow> bool) \<Rightarrow> jsstring \<Rightarrow> jsstring" where
  "spec_collapse p s =
     concat (map (\<lambda>(before, c). if p c then (if before then [] else [0x20]) else [c])
                 (zip (False # map p s) s))"

definition spec_sanitize :: "nat \<Rightarrow> jsstring \<Rightarrow> jsstring" where
  "spec_sanitize maxLength q =
     take maxLength (spec_collapse isWhiteSpace (spec_collapse isCrLfTab (spec_trim q)))"





section \<open>Shapes of sanitized text\<close>

text \<open>
  \<open>tidy s\<close>: every white space character of \<open>s\<close> is a space that is not followed by
  white space. \<open>startsOk\<close> and \<open>endsOk\<close>: no white space at the start, at the end.
\<close>

fun tidy :: "jsstring \<Rightarrow> bool" where
  "tidy [] = True"
| "tidy [c] = (isWhiteSpace c \<longrightarrow> c = 0x20)"
| "tidy (c # d # cs) = ((isWhiteSpace c \<longrightarrow> c = 0x20 \<and> \<not> isWhiteSpace d) \<and> tidy (d # cs))"

definition startsOk :: "jsstring \<Rightarrow> bool" where
  "startsOk s = (s = [] \<or> \<not> isWhiteSpace (hd s))"

definition endsOk :: "jsstring \<Rightarrow> bool" where
  "endsOk s = (s = [] \<or> \<not> isWhiteSpace (last s))"

section \<open>Example data\<close>

text \<open>
  A provider record with the given name, and the normalized result that is expected
  for it.
\<close>

definition exampleRecord :: "string \<Rightarrow> (jsstring \<times> json) list \<Rightarrow> json" where
  "exampleRecord name extra =
     JObj ([(str ''title'', JStr (str name)),
            (str ''url'', JStr (str ''https://'' @ str name @ str ''.example''))] @ extra)"

definition exampleResult :: "resultType \<Rightarrow> string \<Rightarrow> SearchResult" where
  "exampleResult ty name =
     \<lparr> title = Some (JStr (str name)),
       description = Some (JStr (str ''about '' @ str name)),
       url = Some (JStr (str ''https://'' @ str name @ str ''.example'')),
       resultType = Some ty \<rparr>"

definition exampleA :: json where
  "exampleA = exampleRecord ''a'' [(str ''description'', JStr []),
                                   (str ''snippet'', JStr (str ''about a''))]"

definition exampleB :: json where
  "exampleB = exampleRecord ''b'' [(str ''description'', JStr (str ''about b''))]"

definition exampleC :: json where
  "exampleC = exampleRecord ''c'' [(str ''description'', JStr (str ''about c''))]"

definition exampleV :: json where
  "exampleV = exampleRecord ''v'' [(str ''description'', JStr (str ''about v''))]"


definition exampleData :: "(jsstring \<times> json) list \<Rightarrow> json" where
  "exampleData extra =
     JObj ([(str ''web'', JArr [exampleA, exampleB]),
            (str ''news'', JObj [(str ''results'', JArr [exampleC])]),
            (str ''videos'', JObj [(str ''results'', JArr [exampleV])])] @ extra)"

definition exampleMixed :: "json list \<Rightarrow> (jsstring \<times> json) list" where
  "exampleMixed hint = [(str ''mixed'', JObj [(str ''main'', JArr hint)])]"

definition malformedProps :: "(jsstring \<times> json) list" where
  "malformedProps =
     [(str ''web'', JStr (str ''none'')), (str ''news'', JNum 7),
      (str ''videos'', JObj [(str ''results'', JNull)]), (str ''mixed'', JNull)]"

definition malformedData :: json where
  "malformedData = JObj malformedProps"

definition okResponse :: "json \<Rightarrow> Response" where
  "okResponse data = \<lparr> status = 200, statusText = str ''OK'', json = Inr data \<rparr>"

definition startState :: RequestCount where
  "startState = \<lparr> second = 0, month = 0, lastReset = 0 \<rparr>"

text \<open>
  The clock readings of \<open>k\<close> windows, 1001 ms apart, with five checks at the start of
  each window.
\<close>

definition fullWindows :: "nat \<Rightarrow> int list" where
  "fullWindows k = concat (map (\<lambda>i. replicate 5 (1001 * int i)) [0 ..< k])"

text \<open>A body whose one web record has an object with an own \<open>toString\<close> as title.\<close>

definition untitledData :: json where
  "untitledData =
     JObj [(str ''web'',
            JArr [JObj [(str ''title'', JObj [(str ''toString'', JNum 1)])]])]"

definition untitledResult :: SearchResult where
  "untitledResult =
     \<lparr> title = Some (JObj [(str ''toString'', JNum 1)]), description = Some (JStr []),
       url = None, resultType = Some Web \<rparr>"

section \<open>Rate limiter: properties\<close>

lemma checkRateLimit_in_window:
  assumes "now - lastReset rc \<le> 1000"
  shows "checkRateLimit cfg now rc =
     (if second rc \<ge> perSecond (rateLimit cfg) \<or> month rc \<ge> perMonth (rateLimit cfg)
      then (Inl (Error (str ''Rate limit exceeded'')), rc)
      else (Inr (), rc\<lparr> second := second rc + 1, month := month rc + 1 \<rparr>))"
  using assms by (simp add: checkRateLimit_def resetWindow_def)

lemma checkRateLimit_resetWindow:
  "checkRateLimit cfg now rc = checkRateLimit cfg now (resetWindow now rc)"
  by (simp add: checkRateLimit_def resetWindow_def)

lemma resetWindow_in_window: "now - lastReset (resetWindow now rc) \<le> 1000"
  by (simp add: resetWindow_def)

lemma checkRateLimit_step:
  assumes "0 \<le> second rc" and "0 \<le> month rc"
  shows "0 \<le> second (snd (checkRateLimit cfg now rc))
     \<and> 0 \<le> month (snd (checkRateLimit cfg now rc))
     \<and> month rc \<le> month (snd (checkRateLimit cfg now rc))"
  using assms by (simp add: checkRateLimit_def resetWindow_def Let_def)

lemma snd_checkAll_Cons:
  "snd (checkAll cfg (t # ts) rc) = snd (checkAll cfg ts (snd (checkRateLimit cfg t rc)))"
  by (simp split: prod.splits)

lemma fst_checkAll_Cons:
  "fst (checkAll cfg (t # ts) rc) =
     fst (checkRateLimit cfg t rc) # fst (checkAll cfg ts (snd (checkRateLimit cfg t rc)))"
  by (simp split: prod.splits)

lemma checkAll_counters:
  assumes "0 \<le> second rc" and "0 \<le> month rc"
  shows "0 \<le> second (snd (checkAll cfg ts rc))
     \<and> 0 \<le> month (snd (checkAll cfg ts rc))
     \<and> month rc \<le> month (snd (checkAll cfg ts rc))"
  using assms
proof (induction ts arbitrary: rc)
  case Nil
  then show ?case by simp
next
  case (Cons t ts)
  let ?rc1 = "snd (checkRateLimit cfg t rc)"
  from Cons.prems have s: "0 \<le> second ?rc1 \<and> 0 \<le> month ?rc1 \<and> month rc \<le> month ?rc1"
    by (rule checkRateLimit_step)
  then have "0 \<le> second (snd (checkAll cfg ts ?rc1))
     \<and> 0 \<le> month (snd (checkAll cfg ts ?rc1))
     \<and> month ?rc1 \<le> month (snd (checkAll cfg ts ?rc1))"
    by (intro Cons.IH) simp_all
  with s show ?case unfolding snd_checkAll_Cons by auto
qed

lemma checkAll_in_window:
  assumes "\<forall>u\<in>set ts. u - lastReset rc \<le> 1000"
    and "month rc + (perSecond (rateLimit cfg) - second rc) \<le> perMonth (rateLimit cfg)"
  shows "fst (checkAll cfg ts rc) =
     replicate (min (length ts) (nat (perSecond (rateLimit cfg) - second rc))) (Inr ())
     @ replicate (length ts - nat (perSecond (rateLimit cfg) - second rc))
         (Inl (Error (str ''Rate limit exceeded'')))"
  using assms
proof (induction ts arbitrary: rc)
  case Nil
  then show ?case by simp
next
  case (Cons t ts)
  have inw: "t - lastReset rc \<le> 1000" using Cons.prems(1) by simp
  show ?case
  proof (cases "second rc \<ge> perSecond (rateLimit cfg)")
    case True
    then have step: "checkRateLimit cfg t rc = (Inl (Error (str ''Rate limit exceeded'')), rc)"
      by (simp add: checkRateLimit_in_window [OF inw])
    have "fst (checkAll cfg ts rc) =
       replicate (min (length ts) (nat (perSecond (rateLimit cfg) - second rc))) (Inr ())
       @ replicate (length ts - nat (perSecond (rateLimit cfg) - second rc))
           (Inl (Error (str ''Rate limit exceeded'')))"
      using Cons.IH [of rc] Cons.prems by simp
    with True step show ?thesis
      by (simp only: fst_checkAll_Cons) simp
  next
    case False
    let ?rc1 = "rc\<lparr> second := second rc + 1, month := month rc + 1 \<rparr>"
    from False Cons.prems(2) have m: "month rc < perMonth (rateLimit cfg)" by linarith
    with False have step: "checkRateLimit cfg t rc = (Inr (), ?rc1)"
      by (simp add: checkRateLimit_in_window [OF inw])
    have ih: "fst (checkAll cfg ts ?rc1) =
       replicate (min (length ts) (nat (perSecond (rateLimit cfg) - second ?rc1))) (Inr ())
       @ replicate (length ts - nat (perSecond (rateLimit cfg) - second ?rc1))
           (Inl (Error (str ''Rate limit exceeded'')))"
      using Cons.prems by (intro Cons.IH) auto
    from False have n: "nat (perSecond (rateLimit cfg) - second rc)
        = Suc (nat (perSecond (rateLimit cfg) - (second rc + 1)))"
      by linarith
    show ?thesis
      using step ih n by (simp only: fst_checkAll_Cons) simp
  qed
qed

text \<open>
  Claim C3, as amended. Every call of \<open>checkRateLimit\<close> first applies the lazy window
  reset, also when the check then fails: when more than 1000 ms have passed since the
  last reset, the per-second counter is set to 0 and the reset time is set to the clock
  reading, and otherwise both are left as they are. The check fails, with the error
  \<open>Rate limit exceeded\<close>, exactly when after that reset the per-second counter has reached
  its ceiling or the per-month counter has reached its ceiling, and succeeds otherwise.
  From non-negative counters, both counters stay non-negative and the per-month counter
  does not decrease, over one check and over any sequence of checks. A check that fails
  increments neither counter: the per-month counter is unchanged, and the per-second
  counter has its value after the reset. A check that succeeds adds exactly 1 to the
  per-month counter and exactly 1 to the per-second counter's value after the reset.
\<close>

theorem checkRateLimit_counters:
  assumes "0 \<le> second rc" and "0 \<le> month rc"
    and "checkRateLimit cfg now rc = (r, rc1)"
  shows "0 \<le> second rc1 \<and> 0 \<le> month rc1 \<and> month rc \<le> month rc1
    \<and> lastReset rc1 = (if now - lastReset rc > 1000 then now else lastReset rc)
    \<and> (r = Inl (Error (str ''Rate limit exceeded''))
         \<longleftrightarrow> (if now - lastReset rc > 1000 then 0 else second rc) \<ge> perSecond (rateLimit cfg)
              \<or> month rc \<ge> perMonth (rateLimit cfg))
    \<and> (r = Inr ()
         \<longleftrightarrow> (if now - lastReset rc > 1000 then 0 else second rc) < perSecond (rateLimit cfg)
              \<and> month rc < perMonth (rateLimit cfg))
    \<and> (case r of
          Inl e \<Rightarrow> month rc1 = month rc
                   \<and> second rc1 = (if now - lastReset rc > 1000 then 0 else second rc)
        | Inr u \<Rightarrow> month rc1 = month rc + 1
                   \<and> second rc1 = (if now - lastReset rc > 1000 then 0 else second rc) + 1)
    \<and> 0 \<le> second (snd (checkAll cfg ts rc))
    \<and> 0 \<le> month (snd (checkAll cfg ts rc))
    \<and> month rc \<le> month (snd (checkAll cfg ts rc))"
proof -
  have one: "0 \<le> second rc1 \<and> 0 \<le> month rc1 \<and> month rc \<le> month rc1
    \<and> lastReset rc1 = (if now - lastReset rc > 1000 then now else lastReset rc)
    \<and> (case r of
          Inl e \<Rightarrow> month rc1 = month rc
                   \<and> second rc1 = (if now - lastReset rc > 1000 then 0 else second rc)
        | Inr u \<Rightarrow> month rc1 = month rc + 1
                   \<and> second rc1 = (if now - lastReset rc > 1000 then 0 else second rc) + 1)"
    using assms
    by (auto simp: checkRateLimit_def Let_def resetWindow_def split: if_splits)
  have fails: "r = Inl (Error (str ''Rate limit exceeded''))
         \<longleftrightarrow> (if now - lastReset rc > 1000 then 0 else second rc) \<ge> perSecond (rateLimit cfg)
              \<or> month rc \<ge> perMonth (rateLimit cfg)"
    using assms(3)
    by (auto simp: checkRateLimit_def Let_def resetWindow_def split: if_splits)
  have passes: "r = Inr ()
         \<longleftrightarrow> (if now - lastReset rc > 1000 then 0 else second rc) < perSecond (rateLimit cfg)
              \<and> month rc < perMonth (rateLimit cfg)"
    using assms(3)
    by (auto simp: checkRateLimit_def Let_def resetWindow_def split: if_splits)
  from one fails passes checkAll_counters [OF assms(1,2), of cfg ts] show ?thesis
    by (simp only: simp_thms)
qed

theorem checkRateLimit_counters_witness:
  "checkRateLimit (config True []) 2000 \<lparr> second = 5, month = 7, lastReset = 0 \<rparr>
       = (Inr (), \<lparr> second = 1, month = 8, lastReset = 2000 \<rparr>)
   \<and> checkRateLimit (config True []) 202000 \<lparr> second = 5, month = 1000, lastReset = 199199 \<rparr>
       = (Inl (Error (str ''Rate limit exceeded'')),
          \<lparr> second = 0, month = 1000, lastReset = 202000 \<rparr>)
   \<and> checkRateLimit (config True []) 500 \<lparr> second = 5, month = 7, lastReset = 0 \<rparr>
       = (Inl (Error (str ''Rate limit exceeded'')),
          \<lparr> second = 5, month = 7, lastReset = 0 \<rparr>)
   \<and> 7 \<le> month (snd (checkAll (config True []) [2000, 2001, 4000]
                          \<lparr> second = 5, month = 7, lastReset = 0 \<rparr>))"
proof -
  let ?cfg = "config True []"
  let ?rc = "\<lparr> second = 5, month = 7, lastReset = 0 \<rparr>"
  let ?full = "\<lparr> second = 5, month = 1000, lastReset = 199199 \<rparr>"
  have c: "perSecond (rateLimit ?cfg) = 5" "perMonth (rateLimit ?cfg) = 1000"
    by (simp_all add: config_def)
  have h1: "0 \<le> second ?rc" and h2: "0 \<le> month ?rc"
    and f1: "0 \<le> second ?full" and f2: "0 \<le> month ?full"
    by simp_all
  obtain r1 s1 where e1: "checkRateLimit ?cfg 2000 ?rc = (r1, s1)" by (cases "checkRateLimit ?cfg 2000 ?rc")
  obtain r2 s2 where e2: "checkRateLimit ?cfg 202000 ?full = (r2, s2)"
    by (cases "checkRateLimit ?cfg 202000 ?full")
  obtain r3 s3 where e3: "checkRateLimit ?cfg 500 ?rc = (r3, s3)" by (cases "checkRateLimit ?cfg 500 ?rc")
  from checkRateLimit_counters [OF h1 h2 e1, of "[2000, 2001, 4000]"]
  have 1: "r1 = Inr () \<and> month s1 = 8 \<and> second s1 = 1 \<and> lastReset s1 = 2000"
    and 4: "7 \<le> month (snd (checkAll ?cfg [2000, 2001, 4000] ?rc))"
    by (simp_all add: c split: sum.splits)
  from checkRateLimit_counters [OF f1 f2 e2, of "[]"]
  have 2: "r2 = Inl (Error (str ''Rate limit exceeded''))
      \<and> month s2 = 1000 \<and> second s2 = 0 \<and> lastReset s2 = 202000"
    by (simp add: c split: sum.splits)
  from checkRateLimit_counters [OF h1 h2 e3, of "[]"]
  have 3: "r3 = Inl (Error (str ''Rate limit exceeded''))
      \<and> month s3 = 7 \<and> second s3 = 5 \<and> lastReset s3 = 0"
    by (simp add: c split: sum.splits)
  from 1 e1 have "checkRateLimit ?cfg 2000 ?rc = (Inr (), \<lparr> second = 1, month = 8, lastReset = 2000 \<rparr>)"
    by (cases s1) simp
  moreover from 2 e2 have "checkRateLimit ?cfg 202000 ?full
      = (Inl (Error (str ''Rate limit exceeded'')), \<lparr> second = 0, month = 1000, lastReset = 202000 \<rparr>)"
    by (cases s2) simp
  moreover from 3 e3 have "checkRateLimit ?cfg 500 ?rc
      = (Inl (Error (str ''Rate limit exceeded'')), \<lparr> second = 5, month = 7, lastReset = 0 \<rparr>)"
    by (cases s3) simp
  ultimately show ?thesis using 4 by simp
qed

lemma snd_checkAll_append:
  "snd (checkAll cfg (xs @ ys) rc) = snd (checkAll cfg ys (snd (checkAll cfg xs rc)))"
proof (induction xs arbitrary: rc)
  case Nil
  show ?case by simp
next
  case (Cons x xs)
  show ?case unfolding append_Cons snd_checkAll_Cons by (rule Cons.IH)
qed

lemma five_checks:
  assumes "second (resetWindow t rc) = 0" and "month rc + 5 \<le> 1000"
  shows "snd (checkAll (config True []) (replicate 5 t) rc)
     = \<lparr> second = 5, month = month rc + 5, lastReset = lastReset (resetWindow t rc) \<rparr>"
proof -
  have c: "perSecond (rateLimit (config True [])) = 5" "perMonth (rateLimit (config True [])) = 1000"
    by (simp_all add: config_def)
  have r: "replicate 5 t = [t, t, t, t, t]" by (simp add: numeral_eq_Suc)
  show ?thesis
    using assms unfolding r
    by (cases rc) (simp add: snd_checkAll_Cons checkRateLimit_def resetWindow_def c Let_def)
qed

lemma fullWindows_state:
  "k < 200 \<Longrightarrow> snd (checkAll (config True []) (fullWindows (Suc k)) startState)
     = \<lparr> second = 5, month = 5 * (int k + 1), lastReset = 1001 * int k \<rparr>"
proof (induction k)
  case 0
  have "snd (checkAll (config True []) (replicate 5 0) startState)
     = \<lparr> second = 5, month = month startState + 5,
         lastReset = lastReset (resetWindow 0 startState) \<rparr>"
    by (rule five_checks) (simp_all add: startState_def resetWindow_def)
  then show ?case by (simp add: fullWindows_def startState_def resetWindow_def)
next
  case (Suc k)
  let ?rc = "\<lparr> second = 5, month = 5 * (int k + 1), lastReset = 1001 * int k \<rparr>"
  let ?t = "1001 * int (Suc k)"
  from Suc have ih: "snd (checkAll (config True []) (fullWindows (Suc k)) startState) = ?rc"
    by simp
  have f: "fullWindows (Suc (Suc k)) = fullWindows (Suc k) @ replicate 5 ?t"
    by (simp add: fullWindows_def)
  have "snd (checkAll (config True []) (replicate 5 ?t) ?rc)
     = \<lparr> second = 5, month = month ?rc + 5, lastReset = lastReset (resetWindow ?t ?rc) \<rparr>"
    using Suc.prems by (intro five_checks) (simp_all add: resetWindow_def)
  then show ?case
    unfolding f snd_checkAll_append ih by (simp add: resetWindow_def)
qed

text \<open>
  Claim C3 as stated fails in the test configuration (5 per second, 1000 per month).
  After 200 windows of five checks each the counters are at 5 and 1000; the next check,
  2801 ms after the last reset, fails on the month ceiling and has set the per-second
  counter from 5 to 0. And after five checks at the start of the process, the check at
  2000 ms succeeds and takes the per-second counter from 5 to 1.
\<close>

theorem checkRateLimit_failed_check_counterexample:
  "snd (checkAll (config True []) (fullWindows 200) startState)
     = \<lparr> second = 5, month = 1000, lastReset = 199199 \<rparr>
   \<and> checkRateLimit (config True []) 202000 \<lparr> second = 5, month = 1000, lastReset = 199199 \<rparr>
     = (Inl (Error (str ''Rate limit exceeded'')),
        \<lparr> second = 0, month = 1000, lastReset = 202000 \<rparr>)
   \<and> snd (checkAll (config True []) [0, 1, 2, 3, 4] startState)
     = \<lparr> second = 5, month = 5, lastReset = 0 \<rparr>
   \<and> checkRateLimit (config True []) 2000 \<lparr> second = 5, month = 5, lastReset = 0 \<rparr>
     = (Inr (), \<lparr> second = 1, month = 6, lastReset = 2000 \<rparr>)"
proof -
  have "snd (checkAll (config True []) (fullWindows (Suc 199)) startState)
     = \<lparr> second = 5, month = 5 * (int 199 + 1), lastReset = 1001 * int 199 \<rparr>"
    by (rule fullWindows_state) simp
  then have "snd (checkAll (config True []) (fullWindows 200) startState)
     = \<lparr> second = 5, month = 1000, lastReset = 199199 \<rparr>"
    by simp
  then show ?thesis
    by (simp add: checkRateLimit_def config_def resetWindow_def startState_def)
qed

text \<open>
  Claim C4, as amended. A window opens with the per-second counter at 0: at the start of
  the process, or at a check that comes more than 1000 ms after the last reset. While
  the month ceiling is not reached, of the checks within that window (no more than
  1000 ms after its reset) the first \<open>perSecond\<close> succeed and every further one fails
  with the error \<open>Rate limit exceeded\<close>. With a positive per-second ceiling and the month
  ceiling not reached, a check that comes more than 1000 ms after the last reset
  succeeds.
\<close>

theorem checkRateLimit_window:
  "(second (resetWindow t rc) = 0
      \<and> (\<forall>u\<in>set ts. u - lastReset (resetWindow t rc) \<le> 1000)
      \<and> month rc + perSecond (rateLimit cfg) \<le> perMonth (rateLimit cfg)
    \<longrightarrow> fst (checkAll cfg (t # ts) rc) =
          replicate (min (length (t # ts)) (nat (perSecond (rateLimit cfg)))) (Inr ())
          @ replicate (length (t # ts) - nat (perSecond (rateLimit cfg)))
              (Inl (Error (str ''Rate limit exceeded''))))
   \<and> (now - lastReset rc > 1000 \<and> 0 < perSecond (rateLimit cfg)
        \<and> month rc < perMonth (rateLimit cfg)
    \<longrightarrow> fst (checkRateLimit cfg now rc) = Inr ())"
proof (intro conjI impI)
  assume a: "second (resetWindow t rc) = 0
      \<and> (\<forall>u\<in>set ts. u - lastReset (resetWindow t rc) \<le> 1000)
      \<and> month rc + perSecond (rateLimit cfg) \<le> perMonth (rateLimit cfg)"
  let ?w = "resetWindow t rc"
  have "checkAll cfg (t # ts) rc = checkAll cfg (t # ts) ?w"
    using checkRateLimit_resetWindow [of cfg t rc] by simp
  then have "fst (checkAll cfg (t # ts) rc) = fst (checkAll cfg (t # ts) ?w)"
    by (rule arg_cong)
  moreover have "\<forall>u\<in>set (t # ts). u - lastReset ?w \<le> 1000"
    using a resetWindow_in_window [of t rc] by simp
  moreover have "month ?w + (perSecond (rateLimit cfg) - second ?w) \<le> perMonth (rateLimit cfg)"
    using a by (simp add: resetWindow_def)
  ultimately show "fst (checkAll cfg (t # ts) rc) =
          replicate (min (length (t # ts)) (nat (perSecond (rateLimit cfg)))) (Inr ())
          @ replicate (length (t # ts) - nat (perSecond (rateLimit cfg)))
              (Inl (Error (str ''Rate limit exceeded'')))"
    using checkAll_in_window [of "t # ts" ?w cfg] a by simp
next
  assume "now - lastReset rc > 1000 \<and> 0 < perSecond (rateLimit cfg)
        \<and> month rc < perMonth (rateLimit cfg)"
  then show "fst (checkRateLimit cfg now rc) = Inr ()"
    by (simp add: checkRateLimit_def resetWindow_def)
qed

theorem checkRateLimit_window_witness:
  "second (resetWindow 5000 \<lparr> second = 3, month = 40, lastReset = 0 \<rparr>) = 0
   \<and> lastReset (resetWindow 5000 \<lparr> second = 3, month = 40, lastReset = 0 \<rparr>) = 5000
   \<and> fst (checkAll (config True []) [5000, 5001, 5002, 5500, 5900, 5999, 6000]
              \<lparr> second = 3, month = 40, lastReset = 0 \<rparr>)
       = [Inr (), Inr (), Inr (), Inr (), Inr (),
          Inl (Error (str ''Rate limit exceeded'')), Inl (Error (str ''Rate limit exceeded''))]
   \<and> fst (checkRateLimit (config True []) 6001 \<lparr> second = 5, month = 45, lastReset = 5000 \<rparr>)
       = Inr ()"
proof -
  let ?rc = "\<lparr> second = 3, month = 40, lastReset = 0 \<rparr>"
  let ?rc2 = "\<lparr> second = 5, month = 45, lastReset = 5000 \<rparr>"
  let ?cfg = "config True []"
  have c: "perSecond (rateLimit ?cfg) = 5" "perMonth (rateLimit ?cfg) = 1000"
    by (simp_all add: config_def)
  have h1: "second (resetWindow 5000 ?rc) = 0
      \<and> (\<forall>u\<in>set [5001, 5002, 5500, 5900, 5999, 6000]. u - lastReset (resetWindow 5000 ?rc) \<le> 1000)
      \<and> month ?rc + perSecond (rateLimit ?cfg) \<le> perMonth (rateLimit ?cfg)"
    by (simp add: resetWindow_def c)
  have h2: "6001 - lastReset ?rc2 > 1000 \<and> 0 < perSecond (rateLimit ?cfg)
      \<and> month ?rc2 < perMonth (rateLimit ?cfg)"
    by (simp add: c)
  have r: "replicate (min (length [5000, 5001, 5002, 5500, 5900, 5999, 6000 :: int]) (nat 5)) (Inr ())
          @ replicate (length [5000, 5001, 5002, 5500, 5900, 5999, 6000 :: int] - nat 5)
              (Inl (Error (str ''Rate limit exceeded'')))
     = [Inr (), Inr (), Inr (), Inr (), Inr (),
          Inl (Error (str ''Rate limit exceeded'')), Inl (Error (str ''Rate limit exceeded'')) :: thrown + unit]"
    by (simp add: numeral_eq_Suc)
  from checkRateLimit_window [of 5000 ?rc "[5001, 5002, 5500, 5900, 5999, 6000]" ?cfg]
    h1 have 1: "fst (checkAll ?cfg [5000, 5001, 5002, 5500, 5900, 5999, 6000] ?rc)
       = [Inr (), Inr (), Inr (), Inr (), Inr (),
          Inl (Error (str ''Rate limit exceeded'')), Inl (Error (str ''Rate limit exceeded''))]"
    unfolding c r [symmetric] by blast
  from checkRateLimit_window [of 0 ?rc2 "[]" ?cfg 6001] h2
  have 2: "fst (checkRateLimit ?cfg 6001 ?rc2) = Inr ()" by blast
  from h1 1 2 show ?thesis by (simp add: resetWindow_def)
qed

text \<open>
  Claim C4 as stated fails at exactly 1000 ms: in the test configuration (5 per second),
  after five successful checks in the window that was reset at 0, the check at 1000 is
  still in that window and fails.
\<close>

theorem checkRateLimit_at_1000ms_counterexample:
  "fst (checkAll (config True []) [0, 1, 2, 3, 4, 1000] startState)
     = [Inr (), Inr (), Inr (), Inr (), Inr (), Inl (Error (str ''Rate limit exceeded''))]"
  by (simp add: checkRateLimit_def config_def resetWindow_def startState_def)

section \<open>Query sanitizer: properties\<close>

lemma isWhiteSpace_space: "isWhiteSpace 0x20"
  by (simp add: isWhiteSpace_def)

lemma isCrLfTab_isWhiteSpace: "isCrLfTab c \<Longrightarrow> isWhiteSpace c"
  by (auto simp: isCrLfTab_def isWhiteSpace_def)

lemma not_isCrLfTab_space: "\<not> isCrLfTab 0x20"
  by (simp add: isCrLfTab_def)

lemma length_replaceRuns: "length (replaceRuns p s) \<le> length s"
proof (induction p s rule: replaceRuns.induct)
  case (1 p)
  then show ?case by simp
next
  case (2 p c cs)
  have "length (dropWhile p cs) \<le> length cs" by (rule length_dropWhile_le)
  with 2 show ?case by auto
qed

lemma replaceRuns_Nil_iff: "replaceRuns p s = [] \<longleftrightarrow> s = []"
  by (cases s) auto

lemma startsOk_dropWhile: "startsOk (dropWhile isWhiteSpace s)"
  unfolding startsOk_def using hd_dropWhile [of isWhiteSpace s] by blast

lemma startsOk_replaceRuns:
  assumes "\<And>c. p c \<Longrightarrow> isWhiteSpace c" and "startsOk s"
  shows "startsOk (replaceRuns p s)"
  using assms by (cases s) (auto simp: startsOk_def)

lemma last_dropWhile:
  "dropWhile p cs \<noteq> [] \<Longrightarrow> last (dropWhile p cs) = last cs"
  by (metis last_appendR takeWhile_dropWhile_id)

lemma dropWhile_not_Nil:
  "cs \<noteq> [] \<Longrightarrow> \<not> p (last cs) \<Longrightarrow> dropWhile p cs \<noteq> []"
proof
  assume ne: "cs \<noteq> []" and l: "\<not> p (last cs)" and "dropWhile p cs = []"
  then have "\<forall>x\<in>set cs. p x" by (simp add: dropWhile_eq_Nil_conv)
  with ne have "p (last cs)" by simp
  with l show False by simp
qed

lemma last_replaceRuns:
  "s \<noteq> [] \<Longrightarrow> \<not> p (last s) \<Longrightarrow> last (replaceRuns p s) = last s"
proof (induction p s rule: replaceRuns.induct)
  case (1 p)
  then show ?case by simp
next
  case (2 p c cs)
  show ?case
  proof (cases "p c")
    case True
    with 2 have ne: "cs \<noteq> []" by auto
    with 2 have l: "\<not> p (last cs)" by simp
    have dw: "dropWhile p cs \<noteq> []" using ne l by (rule dropWhile_not_Nil)
    have lastdw: "last (dropWhile p cs) = last cs" using dw by (rule last_dropWhile)
    have "last (replaceRuns p (dropWhile p cs)) = last (dropWhile p cs)"
      using "2.IH"(1) [OF True dw] l lastdw by simp
    moreover have "replaceRuns p (dropWhile p cs) \<noteq> []"
      using dw by (simp only: replaceRuns_Nil_iff not_False_eq_True)
    moreover have "replaceRuns p (c # cs) = 0x20 # replaceRuns p (dropWhile p cs)"
      using True by simp
    ultimately show ?thesis using lastdw ne by simp
  next
    case False
    with 2 show ?thesis by (cases cs) (auto simp: replaceRuns_Nil_iff)
  qed
qed

lemma endsOk_replaceRuns:
  assumes "\<And>c. p c \<Longrightarrow> isWhiteSpace c" and "endsOk s"
  shows "endsOk (replaceRuns p s)"
proof (cases "s = []")
  case True
  then show ?thesis by (simp add: endsOk_def)
next
  case False
  with assms have "\<not> p (last s)" by (auto simp: endsOk_def)
  with False have "last (replaceRuns p s) = last s" by (rule last_replaceRuns)
  with assms False show ?thesis by (simp add: endsOk_def)
qed

lemma endsOk_rev_dropWhile: "endsOk (rev (dropWhile isWhiteSpace (rev s)))"
proof -
  have "startsOk (dropWhile isWhiteSpace (rev s))" by (rule startsOk_dropWhile)
  then show ?thesis by (auto simp: startsOk_def endsOk_def last_rev)
qed

lemma dropWhile_startsOk: "startsOk s \<Longrightarrow> dropWhile isWhiteSpace s = s"
  by (cases s) (auto simp: startsOk_def)

lemma rev_dropWhile_endsOk: "endsOk s \<Longrightarrow> rev (dropWhile isWhiteSpace (rev s)) = s"
proof -
  assume "endsOk s"
  then have "startsOk (rev s)" by (auto simp: startsOk_def endsOk_def hd_rev)
  then show ?thesis by (simp add: dropWhile_startsOk)
qed

lemma startsOk_rev_dropWhile:
  assumes "startsOk s" shows "startsOk (rev (dropWhile isWhiteSpace (rev s)))"
proof (cases "rev (dropWhile isWhiteSpace (rev s)) = []")
  case True
  then show ?thesis by (simp add: startsOk_def)
next
  case False
  have "rev s = takeWhile isWhiteSpace (rev s) @ dropWhile isWhiteSpace (rev s)" by simp
  then have "s = rev (dropWhile isWhiteSpace (rev s)) @ rev (takeWhile isWhiteSpace (rev s))"
    by (metis rev_append rev_rev_ident)
  then have "hd s = hd (rev (dropWhile isWhiteSpace (rev s)))"
    using False by (metis hd_append2)
  with assms False show ?thesis by (auto simp: startsOk_def)
qed

lemma trim_startsOk: "startsOk (trim s)"
  unfolding trim_def by (rule startsOk_rev_dropWhile) (rule startsOk_dropWhile)

lemma trim_endsOk: "endsOk (trim s)"
  unfolding trim_def by (rule endsOk_rev_dropWhile)

lemma trim_id: "startsOk s \<Longrightarrow> endsOk s \<Longrightarrow> trim s = s"
  by (simp add: trim_def dropWhile_startsOk rev_dropWhile_endsOk)

lemma length_trim: "length (trim s) \<le> length s"
proof -
  have "length (trim s) \<le> length (dropWhile isWhiteSpace s)"
    unfolding trim_def using length_dropWhile_le [of isWhiteSpace "rev (dropWhile isWhiteSpace s)"]
    by simp
  also have "\<dots> \<le> length s" by (rule length_dropWhile_le)
  finally show ?thesis .
qed

lemma length_trim_less:
  assumes "s \<noteq> []" and "isWhiteSpace (last s)"
  shows "length (trim s) < length s"
proof (cases "dropWhile isWhiteSpace s = []")
  case True
  have "trim s = []" unfolding trim_def True by simp
  with assms show ?thesis by simp
next
  case False
  let ?d = "dropWhile isWhiteSpace s"
  have "last ?d = last s"
    using False by (rule last_dropWhile)
  with assms False have "isWhiteSpace (hd (rev ?d))" by (simp add: hd_rev)
  moreover from False have "rev ?d \<noteq> []" by simp
  ultimately have "length (dropWhile isWhiteSpace (rev ?d)) < length (rev ?d)"
    by (cases "rev ?d") (auto simp: le_imp_less_Suc length_dropWhile_le)
  then have "length (trim s) < length ?d" by (simp add: trim_def)
  also have "\<dots> \<le> length s" by (rule length_dropWhile_le)
  finally show ?thesis .
qed

lemma tidy_replaceRuns: "tidy (replaceRuns isWhiteSpace s)"
proof (induction "isWhiteSpace" s rule: replaceRuns.induct)
  case 1
  then show ?case by simp
next
  case (2 c cs)
  show ?case
  proof (cases "isWhiteSpace c")
    case True
    let ?d = "dropWhile isWhiteSpace cs"
    from 2 True have ih: "tidy (replaceRuns isWhiteSpace ?d)" by simp
    have eq: "replaceRuns isWhiteSpace (c # cs) = 0x20 # replaceRuns isWhiteSpace ?d"
      using True by simp
    show ?thesis
    proof (cases ?d)
      case Nil
      show ?thesis unfolding eq Nil by simp
    next
      case (Cons x xs)
      then have "\<not> isWhiteSpace x" using hd_dropWhile [of isWhiteSpace cs] by auto
      with ih show ?thesis unfolding eq Cons by simp
    qed
  next
    case False
    with 2 have ih: "tidy (replaceRuns isWhiteSpace cs)" by simp
    with False show ?thesis by (cases "replaceRuns isWhiteSpace cs") auto
  qed
qed

lemma tidy_Cons: "tidy (c # cs) \<Longrightarrow> tidy cs"
  by (cases cs) auto

lemma tidy_spaces: "tidy s \<Longrightarrow> c \<in> set s \<Longrightarrow> isWhiteSpace c \<Longrightarrow> c = 0x20"
  by (induction s rule: tidy.induct) auto

lemma replaceRuns_tidy: "tidy s \<Longrightarrow> replaceRuns isWhiteSpace s = s"
  by (induction s rule: tidy.induct) auto

lemma replaceRuns_none: "\<forall>c\<in>set s. \<not> p c \<Longrightarrow> replaceRuns p s = s"
  by (induction s) auto

lemma replaceRuns_isCrLfTab_tidy: "tidy s \<Longrightarrow> replaceRuns isCrLfTab s = s"
  using tidy_spaces isCrLfTab_isWhiteSpace not_isCrLfTab_space
  by (intro replaceRuns_none) blast

lemma tidy_take: "tidy s \<Longrightarrow> tidy (take n s)"
proof (induction s arbitrary: n rule: tidy.induct)
  case 1
  then show ?case by simp
next
  case (2 c)
  then show ?case by (cases n) auto
next
  case (3 c d cs)
  show ?case
  proof (cases n)
    case 0
    then show ?thesis by simp
  next
    case (Suc m)
    from 3 have "tidy (take m (d # cs))" by simp
    with "3.prems" Suc show ?thesis by (cases m) auto
  qed
qed

lemma startsOk_take: "startsOk s \<Longrightarrow> startsOk (take n s)"
  by (cases s; cases n) (auto simp: startsOk_def)


lemma normal_form:
  "tidy (replaceRuns isWhiteSpace (replaceRuns isCrLfTab (trim q)))
   \<and> startsOk (replaceRuns isWhiteSpace (replaceRuns isCrLfTab (trim q)))
   \<and> endsOk (replaceRuns isWhiteSpace (replaceRuns isCrLfTab (trim q)))"
  by (simp add: tidy_replaceRuns startsOk_replaceRuns endsOk_replaceRuns
      isCrLfTab_isWhiteSpace trim_startsOk trim_endsOk)

lemma sanitizeQuery_fixed:
  assumes "tidy s" and "startsOk s" and "endsOk s"
    and "int (length s) \<le> maxQueryLength (search cfg)"
  shows "sanitizeQuery cfg s = s"
  using assms
  by (simp add: sanitizeQuery_def trim_id replaceRuns_isCrLfTab_tidy replaceRuns_tidy slice0_def)

lemma length_slice0: "length (slice0 e xs) \<le> length xs"
  by (auto simp: slice0_def)

lemma sanitizeQuery_shrinks:
  assumes "s \<noteq> []" and "isWhiteSpace (last s)"
  shows "length (sanitizeQuery cfg s) < length s"
proof -
  have "length (sanitizeQuery cfg s)
      \<le> length (replaceRuns isWhiteSpace (replaceRuns isCrLfTab (trim s)))"
    unfolding sanitizeQuery_def by (rule length_slice0)
  also have "\<dots> \<le> length (replaceRuns isCrLfTab (trim s))" by (rule length_replaceRuns)
  also have "\<dots> \<le> length (trim s)" by (rule length_replaceRuns)
  also have "\<dots> < length s" using assms by (rule length_trim_less)
  finally show ?thesis .
qed

lemma sanitizeQuery_prefix:
  assumes "0 \<le> maxQueryLength (search cfg)"
  shows "tidy (sanitizeQuery cfg q) \<and> startsOk (sanitizeQuery cfg q)
     \<and> int (length (sanitizeQuery cfg q)) \<le> maxQueryLength (search cfg)"
  using assms normal_form [of q]
  by (simp add: sanitizeQuery_def slice0_def tidy_take startsOk_take)

lemma sanitizeQuery_idem_iff:
  assumes "0 \<le> maxQueryLength (search cfg)"
  shows "sanitizeQuery cfg (sanitizeQuery cfg q) = sanitizeQuery cfg q
     \<longleftrightarrow> endsOk (sanitizeQuery cfg q)"
proof
  assume idem: "sanitizeQuery cfg (sanitizeQuery cfg q) = sanitizeQuery cfg q"
  show "endsOk (sanitizeQuery cfg q)"
  proof (rule ccontr)
    assume "\<not> endsOk (sanitizeQuery cfg q)"
    then have "sanitizeQuery cfg q \<noteq> []" and "isWhiteSpace (last (sanitizeQuery cfg q))"
      by (auto simp: endsOk_def)
    then have "length (sanitizeQuery cfg (sanitizeQuery cfg q)) < length (sanitizeQuery cfg q)"
      by (rule sanitizeQuery_shrinks)
    with idem show False by simp
  qed
next
  assume "endsOk (sanitizeQuery cfg q)"
  with sanitizeQuery_prefix [OF assms, of q]
  show "sanitizeQuery cfg (sanitizeQuery cfg q) = sanitizeQuery cfg q"
    by (intro sanitizeQuery_fixed) simp_all
qed

lemma sanitizeQuery_short:
  assumes "int (length q) \<le> maxQueryLength (search cfg)"
  shows "sanitizeQuery cfg q = replaceRuns isWhiteSpace (replaceRuns isCrLfTab (trim q))"
proof -
  have "length (replaceRuns isWhiteSpace (replaceRuns isCrLfTab (trim q))) \<le> length q"
    using length_replaceRuns [of isWhiteSpace "replaceRuns isCrLfTab (trim q)"]
      length_replaceRuns [of isCrLfTab "trim q"] length_trim [of q] by linarith
  with assms show ?thesis by (simp add: sanitizeQuery_def slice0_def)
qed

lemma tidy_Cons_plain: "\<not> isWhiteSpace a \<Longrightarrow> tidy (a # ys) = tidy ys"
  by (cases ys) auto

lemma tidy_replicate_append: "\<not> isWhiteSpace a \<Longrightarrow> tidy ys \<Longrightarrow> tidy (replicate n a @ ys)"
  by (induction n) (simp_all add: tidy_Cons_plain)

text \<open>
  Claim C5, as amended. With a non-negative maximum length: for every query of at most
  \<open>maxQueryLength\<close> code units (the only queries that \<open>isWebSearchArgs\<close> lets through
  to the search) sanitizing twice gives what sanitizing once gives; and for every query
  whatever its length, sanitizing twice gives what sanitizing once gives exactly when
  the sanitized query does not end in a white space character, which the truncation
  can leave there.
\<close>

theorem sanitizeQuery_idempotent:
  assumes "0 \<le> maxQueryLength (search cfg)"
  shows "(int (length q) \<le> maxQueryLength (search cfg)
            \<longrightarrow> sanitizeQuery cfg (sanitizeQuery cfg q) = sanitizeQuery cfg q)
     \<and> (sanitizeQuery cfg (sanitizeQuery cfg q) = sanitizeQuery cfg q
            \<longleftrightarrow> (sanitizeQuery cfg q = [] \<or> \<not> isWhiteSpace (last (sanitizeQuery cfg q))))"
proof (intro conjI impI)
  assume "int (length q) \<le> maxQueryLength (search cfg)"
  then have "endsOk (sanitizeQuery cfg q)"
    using normal_form [of q] by (simp add: sanitizeQuery_short)
  then show "sanitizeQuery cfg (sanitizeQuery cfg q) = sanitizeQuery cfg q"
    by (simp add: sanitizeQuery_idem_iff [OF assms])
next
  show "sanitizeQuery cfg (sanitizeQuery cfg q) = sanitizeQuery cfg q
            \<longleftrightarrow> (sanitizeQuery cfg q = [] \<or> \<not> isWhiteSpace (last (sanitizeQuery cfg q)))"
    using sanitizeQuery_idem_iff [OF assms, of q] by (simp add: endsOk_def)
qed

theorem sanitizeQuery_idempotent_witness:
  "0 \<le> maxQueryLength (search (config False []))
   \<and> int (length (str ''  cats'' @ [0x0A, 0x09] @ str ''dogs  ''))
        \<le> maxQueryLength (search (config False []))
   \<and> sanitizeQuery (config False [])
        (sanitizeQuery (config False []) (str ''  cats'' @ [0x0A, 0x09] @ str ''dogs  ''))
       = sanitizeQuery (config False []) (str ''  cats'' @ [0x0A, 0x09] @ str ''dogs  '')
   \<and> sanitizeQuery (config False []) (replicate 301 0x61) = replicate 300 0x61
   \<and> sanitizeQuery (config False []) (sanitizeQuery (config False []) (replicate 301 0x61))
       = sanitizeQuery (config False []) (replicate 301 0x61)"
proof -
  let ?cfg = "config False []"
  let ?q = "str ''  cats'' @ [0x0A, 0x09] @ str ''dogs  ''"
  let ?long = "replicate 301 (0x61 :: jschar)"
  have h: "0 \<le> maxQueryLength (search ?cfg)" by (simp add: config_def)
  have m: "maxQueryLength (search ?cfg) = 300" by (simp add: config_def)
  have l: "int (length ?q) \<le> maxQueryLength (search ?cfg)"
    by (simp add: config_def str_def)
  have a: "\<not> isWhiteSpace 0x61" by (simp add: isWhiteSpace_def)
  have "tidy (replicate 301 0x61 @ [])" using a by (intro tidy_replicate_append) simp_all
  then have t: "tidy ?long" by simp
  have s: "startsOk ?long" and e: "endsOk ?long"
    using a by (simp_all add: startsOk_def endsOk_def)
  have "replaceRuns isWhiteSpace (replaceRuns isCrLfTab (trim ?long)) = ?long"
    using t s e by (simp add: trim_id replaceRuns_isCrLfTab_tidy replaceRuns_tidy)
  then have first: "sanitizeQuery ?cfg ?long = replicate 300 0x61"
    by (simp add: sanitizeQuery_def m slice0_def)
  then have ends: "sanitizeQuery ?cfg ?long = [] \<or> \<not> isWhiteSpace (last (sanitizeQuery ?cfg ?long))"
    using a by simp
  from sanitizeQuery_idempotent [OF h, of ?q] l
  have 1: "sanitizeQuery ?cfg (sanitizeQuery ?cfg ?q) = sanitizeQuery ?cfg ?q" by blast
  from sanitizeQuery_idempotent [OF h, of ?long] ends
  have 2: "sanitizeQuery ?cfg (sanitizeQuery ?cfg ?long) = sanitizeQuery ?cfg ?long" by blast
  from h l 1 first 2 show ?thesis by blast
qed

text \<open>
  Claim C5 as stated fails in the configuration of the source (maximum length 300) for
  the query of 299 letters \<open>a\<close>, a space and a letter \<open>b\<close>: it is cut after the space,
  and sanitizing the result again trims that space.
\<close>

theorem sanitizeQuery_idempotent_counterexample:
  "sanitizeQuery (config False [])
      (sanitizeQuery (config False []) (replicate 299 0x61 @ [0x20, 0x62]))
   \<noteq> sanitizeQuery (config False []) (replicate 299 0x61 @ [0x20, 0x62])"
proof -
  let ?cfg = "config False []"
  let ?q = "replicate 299 (0x61 :: jschar) @ [0x20, 0x62]"
  have a: "\<not> isWhiteSpace 0x61" and b: "\<not> isWhiteSpace 0x62"
    by (simp_all add: isWhiteSpace_def)
  have m: "maxQueryLength (search ?cfg) = 300" by (simp add: config_def)
  have "tidy [0x20, 0x62]" using b by simp
  with a have t: "tidy ?q" by (rule tidy_replicate_append)
  have s: "startsOk ?q" using a by (simp add: startsOk_def hd_append)
  have e: "endsOk ?q" using b by (simp add: endsOk_def)
  have "replaceRuns isWhiteSpace (replaceRuns isCrLfTab (trim ?q)) = ?q"
    using t s e by (simp add: trim_id replaceRuns_isCrLfTab_tidy replaceRuns_tidy)
  then have first: "sanitizeQuery ?cfg ?q = replicate 299 0x61 @ [0x20]"
    by (simp add: sanitizeQuery_def m slice0_def)
  have "length (sanitizeQuery ?cfg (replicate 299 0x61 @ [0x20]))
      < length (replicate 299 (0x61 :: jschar) @ [0x20])"
    by (rule sanitizeQuery_shrinks) (simp_all add: isWhiteSpace_def)
  with first show ?thesis by auto
qed

lemma collapse_inside_run:
  "concat (map (\<lambda>(before, c). if p c then (if before then [] else [0x20]) else [c])
               (zip (True # map p s) s))
   = concat (map (\<lambda>(before, c). if p c then (if before then [] else [0x20]) else [c])
               (zip (False # map p (dropWhile p s)) (dropWhile p s)))"
  by (induction s) auto

lemma replaceRuns_spec_collapse: "replaceRuns p s = spec_collapse p s"
proof (induction p s rule: replaceRuns.induct)
  case (1 p)
  then show ?case by (simp add: spec_collapse_def)
next
  case (2 p c cs)
  show ?case
  proof (cases "p c")
    case True
    with 2 have "replaceRuns p (c # cs) = 0x20 # spec_collapse p (dropWhile p cs)" by simp
    also have "\<dots> = spec_collapse p (c # cs)"
      using True collapse_inside_run [of p cs] by (simp add: spec_collapse_def)
    finally show ?thesis .
  next
    case False
    with 2 show ?thesis by (simp add: spec_collapse_def)
  qed
qed

lemma trim_spec_trim: "trim s = spec_trim s"
proof -
  let ?k = "length (takeWhile isWhiteSpace s)"
  let ?d = "dropWhile isWhiteSpace s"
  have d: "?d = drop ?k s" by (rule dropWhile_eq_drop)
  show ?thesis
  proof (cases "?d = []")
    case True
    have "trim s = []" unfolding trim_def True by simp
    moreover have "drop ?k s = []" using d True by simp
    ultimately show ?thesis by (simp add: spec_trim_def Let_def)
  next
    case False
    then have "hd ?d \<in> set (rev ?d)" and "\<not> isWhiteSpace (hd ?d)"
      using hd_dropWhile [of isWhiteSpace s] by simp_all
    then have tw: "takeWhile isWhiteSpace (rev ?d @ rev (takeWhile isWhiteSpace s))
        = takeWhile isWhiteSpace (rev ?d)"
      by (rule takeWhile_append1)
    have "rev s = rev ?d @ rev (takeWhile isWhiteSpace s)"
      by (metis rev_append takeWhile_dropWhile_id)
    with tw have m: "takeWhile isWhiteSpace (rev s) = takeWhile isWhiteSpace (rev ?d)"
      by simp
    have "trim s = rev (drop (length (takeWhile isWhiteSpace (rev ?d))) (rev ?d))"
      unfolding trim_def by (simp add: dropWhile_eq_drop [symmetric])
    also have "\<dots> = take (length ?d - length (takeWhile isWhiteSpace (rev ?d))) ?d"
      by (simp add: rev_drop)
    also have "\<dots> = take (length s - ?k - length (takeWhile isWhiteSpace (rev s))) (drop ?k s)"
      using m d by simp
    finally show ?thesis by (simp add: spec_trim_def Let_def)
  qed
qed

text \<open>
  Claim C6. With a non-negative maximum length, \<open>sanitizeQuery\<close> is the sanitizer of the
  specification, step by step and in that order, on every input (it is a total function
  of the configuration and the query alone), and its result has at most
  \<open>maxQueryLength\<close> code units.
\<close>

theorem sanitizeQuery_steps:
  assumes "0 \<le> maxQueryLength (search cfg)"
  shows "sanitizeQuery cfg q = spec_sanitize (nat (maxQueryLength (search cfg))) q
     \<and> int (length (sanitizeQuery cfg q)) \<le> maxQueryLength (search cfg)"
  using assms
  by (simp add: sanitizeQuery_def spec_sanitize_def slice0_def
      replaceRuns_spec_collapse trim_spec_trim)

theorem sanitizeQuery_steps_witness:
  "0 \<le> maxQueryLength (search (config False []))
   \<and> sanitizeQuery (config False []) (str ''  cats'' @ [0x0A, 0x09] @ str ''dogs  '')
       = str ''cats dogs''
   \<and> spec_sanitize 300 (str ''  cats'' @ [0x0A, 0x09] @ str ''dogs  '') = str ''cats dogs''"
proof -
  have h: "0 \<le> maxQueryLength (search (config False []))" by (simp add: config_def)
  have c: "sanitizeQuery (config False []) (str ''  cats'' @ [0x0A, 0x09] @ str ''dogs  '')
       = str ''cats dogs''"
    by (simp add: sanitizeQuery_def config_def slice0_def trim_def str_def
        isWhiteSpace_def isCrLfTab_def)
  have n: "nat (maxQueryLength (search (config False []))) = 300" by (simp add: config_def)
  from sanitizeQuery_steps [OF h, of "str ''  cats'' @ [0x0A, 0x09] @ str ''dogs  ''"] h c n
  show ?thesis by simp
qed

section \<open>Result normalizer: properties\<close>








lemma extract_sections:
  assumes "webResults data = Inr ws" and "newsResults data = Inr ns"
    and "videoResults data = Inr vs"
  shows "extractBraveResults data count =
     (case arrayOf (mixedMain data) of
        Some main \<Rightarrow>
          (case mixedLoop ws ns vs count [] main of
             Inl e \<Rightarrow> Inl e
           | Inr allResults \<Rightarrow> Inr (slice0 count allResults))
      | None \<Rightarrow> Inr (slice0 count (ws @ ns @ vs)))"
  using assms by (simp add: extractBraveResults_def split: option.splits)



lemma mapE_map:
  assumes "\<forall>x\<in>set xs. f x = Inr (g x)"
  shows "mapE f xs = Inr (map g xs)"
  using assms by (induction xs) simp_all

lemma extract_cong:
  assumes "webResults d1 = webResults d2" and "newsResults d1 = newsResults d2"
    and "videoResults d1 = videoResults d2" and "mixedMain d1 = mixedMain d2"
  shows "extractBraveResults d1 count = extractBraveResults d2 count"
  unfolding extractBraveResults_def assms by (rule refl)

lemma getOwn_Cons:
  "getOwn (JObj ((k, v) # props)) k1 = (if k1 = k then Some v else getOwn (JObj props) k1)"
  by (simp add: getOwn_def)

lemma section_names:
  "str ''web'' \<noteq> str ''news''" "str ''web'' \<noteq> str ''videos''" "str ''web'' \<noteq> str ''mixed''"
  "str ''news'' \<noteq> str ''web''" "str ''news'' \<noteq> str ''videos''" "str ''news'' \<noteq> str ''mixed''"
  "str ''videos'' \<noteq> str ''web''" "str ''videos'' \<noteq> str ''news''" "str ''videos'' \<noteq> str ''mixed''"
  "str ''mixed'' \<noteq> str ''web''" "str ''mixed'' \<noteq> str ''news''" "str ''mixed'' \<noteq> str ''videos''"
  by (simp_all add: str_def)

lemma webResults_object:
  "webResults (JObj props) =
     (case arrayOf (getOwn (JObj props) (str ''web'')) of
        Some rs \<Rightarrow> mapE webResult rs | None \<Rightarrow> Inr [])"
  by (simp add: webResults_def getProp_def)

lemma newsResults_object:
  "newsResults (JObj props) =
     (case arrayOf (getOpt (getOwn (JObj props) (str ''news'')) (str ''results'')) of
        Some rs \<Rightarrow> mapE newsResult rs | None \<Rightarrow> Inr [])"
  by (simp add: newsResults_def getProp_def)

lemma videoResults_object:
  "videoResults (JObj props) =
     (case arrayOf (getOpt (getOwn (JObj props) (str ''videos'')) (str ''results'')) of
        Some rs \<Rightarrow> mapE videoResult rs | None \<Rightarrow> Inr [])"
  by (simp add: videoResults_def getProp_def)

lemma empty_results_array:
  "arrayOf (getOpt (Some (JObj [(str ''results'', JArr [])])) (str ''results'')) = Some []"
  by (simp add: arrayOf_def getOpt_def getOwn_def)

lemma replace_web:
  assumes "arrayOf (getOwn (JObj props) (str ''web'')) = None"
  shows "extractBraveResults (JObj props) count
     = extractBraveResults (JObj ((str ''web'', JArr []) # props)) count"
proof (rule extract_cong)
  show "webResults (JObj props) = webResults (JObj ((str ''web'', JArr []) # props))"
    using assms by (simp add: webResults_object getOwn_Cons arrayOf_def)
qed (simp_all add: newsResults_object videoResults_object mixedMain_def getOwn_Cons section_names)

lemma replace_news:
  assumes "arrayOf (getOpt (getOwn (JObj props) (str ''news'')) (str ''results'')) = None"
  shows "extractBraveResults (JObj props) count
     = extractBraveResults
         (JObj ((str ''news'', JObj [(str ''results'', JArr [])]) # props)) count"
proof (rule extract_cong)
  show "newsResults (JObj props)
      = newsResults (JObj ((str ''news'', JObj [(str ''results'', JArr [])]) # props))"
    using assms by (simp add: newsResults_object getOwn_Cons empty_results_array)
qed (simp_all add: webResults_object videoResults_object mixedMain_def getOwn_Cons section_names)

lemma replace_videos:
  assumes "arrayOf (getOpt (getOwn (JObj props) (str ''videos'')) (str ''results'')) = None"
  shows "extractBraveResults (JObj props) count
     = extractBraveResults
         (JObj ((str ''videos'', JObj [(str ''results'', JArr [])]) # props)) count"
proof (rule extract_cong)
  show "videoResults (JObj props)
      = videoResults (JObj ((str ''videos'', JObj [(str ''results'', JArr [])]) # props))"
    using assms by (simp add: videoResults_object getOwn_Cons empty_results_array)
qed (simp_all add: webResults_object newsResults_object mixedMain_def getOwn_Cons section_names)

lemma fetch_ok:
  assumes "fetch (buildRequest cfg query count) = Inr response" and "ok response"
    and "json response = Inr data"
  shows "fetchBraveSearchResults cfg fetch query count
     = (buildRequest cfg query count, extractBraveResults data count)"
  using assms by (simp add: fetchBraveSearchResults_def Let_def)

text \<open>
  Claim C7, as amended. For a body that is not null: a section that is an array with no
  null element is mapped element by element, in order, to one result per element, with
  the title and the URL that the element has; the description of a web result is the
  element's description when that is truthy, else its snippet when that is truthy, else
  the empty text; the description of a news or video result is the element's
  description as it is, with no fallback (undefined when the element has none). A
  section that is anything but an array gives the empty list without a throw, and the
  normalization of an object with such a section is the normalization of the object
  with the empty section in its place. The provider call returns what the normalization
  returns or throws.
\<close>

theorem sections_normalized:
  "data \<noteq> JNull \<longrightarrow>
   (arrayOf (getOwn data (str ''web'')) = Some rs \<and> JNull \<notin> set rs \<longrightarrow>
      webResults data =
        Inr (map (\<lambda>r. \<lparr> title = getOwn r (str ''title''),
                          description =
                            (if truthy (getOwn r (str ''description''))
                             then getOwn r (str ''description'')
                             else if truthy (getOwn r (str ''snippet''))
                             then getOwn r (str ''snippet'')
                             else Some (JStr [])),
                          url = getOwn r (str ''url''),
                          resultType = Some Web \<rparr>) rs))
   \<and> (arrayOf (getOpt (getOwn data (str ''news'')) (str ''results'')) = Some ns
        \<and> JNull \<notin> set ns \<longrightarrow>
      newsResults data =
        Inr (map (\<lambda>r. \<lparr> title = getOwn r (str ''title''),
                          description = getOwn r (str ''description''),
                          url = getOwn r (str ''url''),
                          resultType = Some News \<rparr>) ns))
   \<and> (arrayOf (getOpt (getOwn data (str ''videos'')) (str ''results'')) = Some vs
        \<and> JNull \<notin> set vs \<longrightarrow>
      videoResults data =
        Inr (map (\<lambda>r. \<lparr> title = getOwn r (str ''title''),
                          description = getOwn r (str ''description''),
                          url = getOwn r (str ''url''),
                          resultType = Some Video \<rparr>) vs))
   \<and> (arrayOf (getOwn data (str ''web'')) = None \<longrightarrow> webResults data = Inr [])
   \<and> (arrayOf (getOpt (getOwn data (str ''news'')) (str ''results'')) = None \<longrightarrow>
        newsResults data = Inr [])
   \<and> (arrayOf (getOpt (getOwn data (str ''videos'')) (str ''results'')) = None \<longrightarrow>
        videoResults data = Inr [])
   \<and> (data = JObj props \<and> arrayOf (getOwn data (str ''web'')) = None \<longrightarrow>
        extractBraveResults data count
          = extractBraveResults (JObj ((str ''web'', JArr []) # props)) count)
   \<and> (data = JObj props
        \<and> arrayOf (getOpt (getOwn data (str ''news'')) (str ''results'')) = None \<longrightarrow>
        extractBraveResults data count
          = extractBraveResults
              (JObj ((str ''news'', JObj [(str ''results'', JArr [])]) # props)) count)
   \<and> (data = JObj props
        \<and> arrayOf (getOpt (getOwn data (str ''videos'')) (str ''results'')) = None \<longrightarrow>
        extractBraveResults data count
          = extractBraveResults
              (JObj ((str ''videos'', JObj [(str ''results'', JArr [])]) # props)) count)
   \<and> (fetch (buildRequest cfg query count) = Inr response \<and> ok response
        \<and> json response = Inr data \<longrightarrow>
      snd (fetchBraveSearchResults cfg fetch query count) = extractBraveResults data count)"
proof (intro impI conjI)
  assume d: "data \<noteq> JNull"
  {
    assume a: "arrayOf (getOwn data (str ''web'')) = Some rs \<and> JNull \<notin> set rs"
    then have "\<forall>r\<in>set rs. webResult r =
        Inr \<lparr> title = getOwn r (str ''title''),
              description =
                (if truthy (getOwn r (str ''description''))
                 then getOwn r (str ''description'')
                 else if truthy (getOwn r (str ''snippet''))
                 then getOwn r (str ''snippet'')
                 else Some (JStr [])),
              url = getOwn r (str ''url''),
              resultType = Some Web \<rparr>"
      by (auto simp: webResult_def descriptionOr_def)
    then have "mapE webResult rs =
        Inr (map (\<lambda>r. \<lparr> title = getOwn r (str ''title''),
                          description =
                            (if truthy (getOwn r (str ''description''))
                             then getOwn r (str ''description'')
                             else if truthy (getOwn r (str ''snippet''))
                             then getOwn r (str ''snippet'')
                             else Some (JStr [])),
                          url = getOwn r (str ''url''),
                          resultType = Some Web \<rparr>) rs)"
      by (rule mapE_map)
    with a d show "webResults data =
        Inr (map (\<lambda>r. \<lparr> title = getOwn r (str ''title''),
                          description =
                            (if truthy (getOwn r (str ''description''))
                             then getOwn r (str ''description'')
                             else if truthy (getOwn r (str ''snippet''))
                             then getOwn r (str ''snippet'')
                             else Some (JStr [])),
                          url = getOwn r (str ''url''),
                          resultType = Some Web \<rparr>) rs)"
      by (simp add: webResults_def getProp_def)
  }
  {
    assume a: "arrayOf (getOpt (getOwn data (str ''news'')) (str ''results'')) = Some ns
        \<and> JNull \<notin> set ns"
    then have "\<forall>r\<in>set ns. newsResult r =
        Inr \<lparr> title = getOwn r (str ''title''),
              description = getOwn r (str ''description''),
              url = getOwn r (str ''url''),
              resultType = Some News \<rparr>"
      by (auto simp: newsResult_def)
    then have "mapE newsResult ns =
        Inr (map (\<lambda>r. \<lparr> title = getOwn r (str ''title''),
                          description = getOwn r (str ''description''),
                          url = getOwn r (str ''url''),
                          resultType = Some News \<rparr>) ns)"
      by (rule mapE_map)
    with a d show "newsResults data =
        Inr (map (\<lambda>r. \<lparr> title = getOwn r (str ''title''),
                          description = getOwn r (str ''description''),
                          url = getOwn r (str ''url''),
                          resultType = Some News \<rparr>) ns)"
      by (simp add: newsResults_def getProp_def)
  }
  {
    assume a: "arrayOf (getOpt (getOwn data (str ''videos'')) (str ''results'')) = Some vs
        \<and> JNull \<notin> set vs"
    then have "\<forall>r\<in>set vs. videoResult r =
        Inr \<lparr> title = getOwn r (str ''title''),
              description = getOwn r (str ''description''),
              url = getOwn r (str ''url''),
              resultType = Some Video \<rparr>"
      by (auto simp: videoResult_def)
    then have "mapE videoResult vs =
        Inr (map (\<lambda>r. \<lparr> title = getOwn r (str ''title''),
                          description = getOwn r (str ''description''),
                          url = getOwn r (str ''url''),
                          resultType = Some Video \<rparr>) vs)"
      by (rule mapE_map)
    with a d show "videoResults data =
        Inr (map (\<lambda>r. \<lparr> title = getOwn r (str ''title''),
                          description = getOwn r (str ''description''),
                          url = getOwn r (str ''url''),
                          resultType = Some Video \<rparr>) vs)"
      by (simp add: videoResults_def getProp_def)
  }
  {
    assume "arrayOf (getOwn data (str ''web'')) = None"
    with d show "webResults data = Inr []" by (simp add: webResults_def getProp_def)
  }
  {
    assume "arrayOf (getOpt (getOwn data (str ''news'')) (str ''results'')) = None"
    with d show "newsResults data = Inr []" by (simp add: newsResults_def getProp_def)
  }
  {
    assume "arrayOf (getOpt (getOwn data (str ''videos'')) (str ''results'')) = None"
    with d show "videoResults data = Inr []" by (simp add: videoResults_def getProp_def)
  }
  {
    assume "data = JObj props \<and> arrayOf (getOwn data (str ''web'')) = None"
    then show "extractBraveResults data count
        = extractBraveResults (JObj ((str ''web'', JArr []) # props)) count"
      by (auto intro: replace_web)
  }
  {
    assume "data = JObj props
        \<and> arrayOf (getOpt (getOwn data (str ''news'')) (str ''results'')) = None"
    then show "extractBraveResults data count
        = extractBraveResults
            (JObj ((str ''news'', JObj [(str ''results'', JArr [])]) # props)) count"
      by (auto intro: replace_news)
  }
  {
    assume "data = JObj props
        \<and> arrayOf (getOpt (getOwn data (str ''videos'')) (str ''results'')) = None"
    then show "extractBraveResults data count
        = extractBraveResults
            (JObj ((str ''videos'', JObj [(str ''results'', JArr [])]) # props)) count"
      by (auto intro: replace_videos)
  }
  {
    assume "fetch (buildRequest cfg query count) = Inr response \<and> ok response
        \<and> json response = Inr data"
    then show "snd (fetchBraveSearchResults cfg fetch query count)
        = extractBraveResults data count"
      by (simp add: fetch_ok)
  }
qed

lemma example_records:
  "webResult exampleA = Inr (exampleResult Web ''a'')"
  "webResult exampleB = Inr (exampleResult Web ''b'')"
  "newsResult exampleC = Inr (exampleResult News ''c'')"
  "videoResult exampleV = Inr (exampleResult Video ''v'')"
  by (simp_all add: webResult_def newsResult_def videoResult_def exampleA_def exampleB_def
      exampleC_def exampleV_def exampleRecord_def exampleResult_def getOwn_def
      descriptionOr_def truthy_def str_def)

lemma example_sections:
  "webResults (exampleData extra) = Inr [exampleResult Web ''a'', exampleResult Web ''b'']"
  "newsResults (exampleData extra) = Inr [exampleResult News ''c'']"
  "videoResults (exampleData extra) = Inr [exampleResult Video ''v'']"
  by (simp_all add: exampleData_def webResults_object newsResults_object videoResults_object
      getOwn_Cons section_names arrayOf_def getOpt_def example_records)

lemma example_main:
  "arrayOf (mixedMain (exampleData (exampleMixed hint))) = Some hint"
  "arrayOf (mixedMain (exampleData [])) = None"
  by (simp_all add: exampleData_def exampleMixed_def mixedMain_def getOwn_Cons section_names
      arrayOf_def getOpt_def, simp_all add: getOwn_def)





section \<open>Search gateway: properties\<close>

lemma performWebSearch_text:
  "fst (performWebSearch cfg now fetch rc query countArg safeSearchArg) =
     (case fst (tryBody cfg now fetch rc query (countOrDefault cfg countArg)) of
        Inl e \<Rightarrow> errorText query e
      | Inr text \<Rightarrow> text)"
  by (simp add: performWebSearch_def Let_def split: prod.splits sum.splits)

lemma tryBody_limited:
  assumes "fst (checkRateLimit cfg now rc) = Inl e"
  shows "fst (tryBody cfg now fetch rc query count) = Inl e"
proof (cases "checkRateLimit cfg now rc")
  case (Pair r rc1)
  with assms show ?thesis by (simp add: tryBody_def)
qed

lemma tryBody_passed:
  assumes "fst (checkRateLimit cfg now rc) = Inr u"
  shows "fst (tryBody cfg now fetch rc query count) =
     (case snd (fetchBraveSearchResults cfg fetch (sanitizeQuery cfg query) count) of
        Inl e \<Rightarrow> Inl e
      | Inr results \<Rightarrow>
          if length results = 0 then Inr (noResultsText query)
          else formatSearchResults query results)"
proof (cases "checkRateLimit cfg now rc")
  case (Pair r rc1)
  with assms have r: "r = Inr u" by simp
  show ?thesis
  proof (cases "fetchBraveSearchResults cfg fetch (sanitizeQuery cfg query) count")
    case (Pair request res)
    with \<open>checkRateLimit cfg now rc = (r, rc1)\<close> r show ?thesis
      by (cases res) (simp_all add: tryBody_def Let_def)
  qed
qed

lemma checkRateLimit_error:
  "fst (checkRateLimit cfg now rc) = Inl e \<Longrightarrow> e = Error (str ''Rate limit exceeded'')"
  by (auto simp: checkRateLimit_def Let_def split: if_splits)


lemma fetch_thrown:
  assumes "fetch (buildRequest cfg query count) = Inl e"
  shows "snd (fetchBraveSearchResults cfg fetch query count) = Inl e"
  using assms by (simp add: fetchBraveSearchResults_def Let_def)

lemma fetch_not_ok:
  assumes "fetch (buildRequest cfg query count) = Inr response" and "\<not> ok response"
  shows "snd (fetchBraveSearchResults cfg fetch query count) =
     Inl (Error (if status response = 401
                 then str ''Brave Search API: Unauthorized - check your API key''
                 else if status response = 429
                 then str ''Brave Search API: Rate limit exceeded''
                 else str ''Brave Search API error: '' @ showInt (status response)
                      @ str '' '' @ statusText response))"
  using assms by (simp add: fetchBraveSearchResults_def Let_def)

lemma fetch_unparsed:
  assumes "fetch (buildRequest cfg query count) = Inr response" and "ok response"
    and "json response = Inl e"
  shows "snd (fetchBraveSearchResults cfg fetch query count) = Inl e"
  using assms by (simp add: fetchBraveSearchResults_def Let_def)



lemma example_query: "sanitizeQuery (config False key) (str ''cats'') = str ''cats''"
  by (simp add: sanitizeQuery_def config_def slice0_def trim_def str_def
      isWhiteSpace_def isCrLfTab_def)

lemma start_passes: "fst (checkRateLimit (config False key) 0 startState) = Inr ()"
  by (simp add: checkRateLimit_def resetWindow_def config_def startState_def)

lemma ok_okResponse: "ok (okResponse data)" "json (okResponse data) = Inr data"
  by (simp_all add: ok_def okResponse_def)

lemma search_of_body:
  "fst (performWebSearch (config False key) 0 (\<lambda>request. Inr (okResponse data)) startState
          (str ''cats'') None None)
     = (case extractBraveResults data 5 of
          Inl e \<Rightarrow> errorText (str ''cats'') e
        | Inr results \<Rightarrow>
            if length results = 0 then noResultsText (str ''cats'')
            else (case formatSearchResults (str ''cats'') results of
                    Inl e \<Rightarrow> errorText (str ''cats'') e
                  | Inr text \<Rightarrow> text))"
proof -
  have c: "countOrDefault (config False key) None = 5"
    by (simp add: countOrDefault_def config_def)
  have "snd (fetchBraveSearchResults (config False key) (\<lambda>request. Inr (okResponse data))
               (str ''cats'') 5) = extractBraveResults data 5"
    by (simp add: fetch_ok ok_okResponse)
  then show ?thesis
    by (simp add: performWebSearch_text tryBody_passed [OF start_passes] example_query c
        split: sum.splits)
qed

lemma malformed_sections:
  "arrayOf (getOwn malformedData (str ''web'')) = None"
  "arrayOf (getOpt (getOwn malformedData (str ''news'')) (str ''results'')) = None"
  "arrayOf (getOpt (getOwn malformedData (str ''videos'')) (str ''results'')) = None"
  "arrayOf (mixedMain malformedData) = None"
  by (simp_all add: malformedData_def malformedProps_def mixedMain_def getOwn_def getOpt_def
      arrayOf_def str_def)

theorem sections_normalized_witness:
  "webResults (exampleData []) = Inr [exampleResult Web ''a'', exampleResult Web ''b'']
   \<and> newsResults (exampleData []) = Inr [exampleResult News ''c'']
   \<and> videoResults (exampleData []) = Inr [exampleResult Video ''v'']
   \<and> webResults malformedData = Inr [] \<and> newsResults malformedData = Inr []
   \<and> videoResults malformedData = Inr []
   \<and> extractBraveResults malformedData 10 = Inr []
   \<and> extractBraveResults (JObj ((str ''web'', JArr []) # malformedProps)) 10 = Inr []
   \<and> extractBraveResults
        (JObj ((str ''news'', JObj [(str ''results'', JArr [])]) # malformedProps)) 10 = Inr []
   \<and> extractBraveResults
        (JObj ((str ''videos'', JObj [(str ''results'', JArr [])]) # malformedProps)) 10 = Inr []
   \<and> snd (fetchBraveSearchResults (config False []) (\<lambda>request. Inr (okResponse malformedData))
            (str ''cats'') 10) = Inr []"
proof -
  let ?data = "exampleData []"
  let ?fetch = "\<lambda>request :: Request. (Inr (okResponse malformedData) :: thrown + Response)"
  let ?props = "malformedProps"
  have d: "?data \<noteq> JNull" and m: "malformedData \<noteq> JNull" and p: "malformedData = JObj ?props"
    by (simp_all add: exampleData_def malformedData_def)
  have w: "arrayOf (getOwn ?data (str ''web'')) = Some [exampleA, exampleB]
        \<and> JNull \<notin> set [exampleA, exampleB]"
    and n: "arrayOf (getOpt (getOwn ?data (str ''news'')) (str ''results'')) = Some [exampleC]
        \<and> JNull \<notin> set [exampleC]"
    and v: "arrayOf (getOpt (getOwn ?data (str ''videos'')) (str ''results'')) = Some [exampleV]
        \<and> JNull \<notin> set [exampleV]"
    by (simp_all add: exampleData_def getOwn_def arrayOf_def getOpt_def
        exampleA_def exampleB_def exampleC_def exampleV_def exampleRecord_def str_def)
  have f: "?fetch (buildRequest (config False []) (str ''cats'') 10) = Inr (okResponse malformedData)
      \<and> ok (okResponse malformedData) \<and> json (okResponse malformedData) = Inr malformedData"
    by (simp add: ok_okResponse)
  have rec: "webResult exampleA = Inr (exampleResult Web ''a'')"
    by (rule example_records)
  from sections_normalized [of ?data "[exampleA, exampleB]" "[exampleC]" "[exampleV]"] d w n v
  have 1: "webResults ?data = Inr [exampleResult Web ''a'', exampleResult Web ''b'']"
    and 2: "newsResults ?data = Inr [exampleResult News ''c'']"
    and 3: "videoResults ?data = Inr [exampleResult Video ''v'']"
    by (simp_all add: exampleA_def exampleB_def exampleC_def exampleV_def exampleRecord_def
        exampleResult_def getOwn_def truthy_def str_def)
  from sections_normalized
    [of malformedData _ _ _ ?props 10 ?fetch "config False []" "str ''cats''" "okResponse malformedData"]
    m p malformed_sections f
  have 4: "webResults malformedData = Inr [] \<and> newsResults malformedData = Inr []
      \<and> videoResults malformedData = Inr []
      \<and> extractBraveResults malformedData 10
          = extractBraveResults (JObj ((str ''web'', JArr []) # malformedProps)) 10
      \<and> extractBraveResults malformedData 10
          = extractBraveResults
              (JObj ((str ''news'', JObj [(str ''results'', JArr [])]) # malformedProps)) 10
      \<and> extractBraveResults malformedData 10
          = extractBraveResults
              (JObj ((str ''videos'', JObj [(str ''results'', JArr [])]) # malformedProps)) 10
      \<and> snd (fetchBraveSearchResults (config False []) ?fetch (str ''cats'') 10)
          = extractBraveResults malformedData 10"
    by blast
  from 4 have s: "webResults malformedData = Inr []" "newsResults malformedData = Inr []"
    "videoResults malformedData = Inr []"
    by blast+
  have 5: "extractBraveResults malformedData 10 = Inr []"
    using extract_sections [OF s, of 10] malformed_sections(4) by (simp add: slice0_def)
  from 4 have e1: "extractBraveResults malformedData 10
          = extractBraveResults (JObj ((str ''web'', JArr []) # malformedProps)) 10"
    and e2: "extractBraveResults malformedData 10
          = extractBraveResults
              (JObj ((str ''news'', JObj [(str ''results'', JArr [])]) # malformedProps)) 10"
    and e3: "extractBraveResults malformedData 10
          = extractBraveResults
              (JObj ((str ''videos'', JObj [(str ''results'', JArr [])]) # malformedProps)) 10"
    and e4: "snd (fetchBraveSearchResults (config False []) ?fetch (str ''cats'') 10)
          = extractBraveResults malformedData 10"
    by blast+
  note 6 = trans [OF e1 [symmetric] 5] trans [OF e2 [symmetric] 5] trans [OF e3 [symmetric] 5]
    trans [OF e4 5]
  from 1 2 3 s 5 6 show ?thesis by (simp only: simp_thms)
qed

text \<open>
  Claim C7 as stated fails. The web section whose one element is null is present and is
  not a sequence of records: the normalization throws at \<open>result.title\<close>, and the search
  returns the error text. And a news record with a snippet and no description is
  given no description: undefined, not the snippet and not the empty text.
\<close>

theorem sections_normalized_counterexample:
  "extractBraveResults (JObj [(str ''web'', JArr [JNull])]) 5
     = Inl (Error (str ''Cannot read properties of null (reading '' @ [0x27] @ str ''title''
                   @ [0x27] @ str '')''))
   \<and> fst (performWebSearch (config False []) 0
            (\<lambda>request. Inr (okResponse (JObj [(str ''web'', JArr [JNull])])))
            startState (str ''cats'') None None)
       = str ''Sorry, there was an error performing your search for '' @ dquote
           @ str ''cats'' @ dquote @ str ''. Error: Cannot read properties of null (reading ''
           @ [0x27] @ str ''title'' @ [0x27] @ str '').''
   \<and> newsResults
        (JObj [(str ''news'',
                JObj [(str ''results'',
                       JArr [JObj [(str ''title'', JStr (str ''d'')),
                                   (str ''snippet'', JStr (str ''about d''))]])])])
       = Inr [\<lparr> title = Some (JStr (str ''d'')), description = None, url = None,
                resultType = Some News \<rparr>]"
proof -
  have 1: "extractBraveResults (JObj [(str ''web'', JArr [JNull])]) 5
     = Inl (Error (str ''Cannot read properties of null (reading '' @ [0x27] @ str ''title''
                   @ [0x27] @ str '')''))"
    by (simp add: extractBraveResults_def webResults_object getOwn_def arrayOf_def
        webResult_def readError_def)
  have 2: "newsResults
        (JObj [(str ''news'',
                JObj [(str ''results'',
                       JArr [JObj [(str ''title'', JStr (str ''d'')),
                                   (str ''snippet'', JStr (str ''about d''))]])])])
       = Inr [\<lparr> title = Some (JStr (str ''d'')), description = None, url = None,
                resultType = Some News \<rparr>]"
    by (simp add: newsResults_object getOwn_def getOpt_def arrayOf_def newsResult_def str_def)
  have 3: "fst (performWebSearch (config False []) 0
            (\<lambda>request. Inr (okResponse (JObj [(str ''web'', JArr [JNull])])))
            startState (str ''cats'') None None)
       = errorText (str ''cats'')
           (Error (str ''Cannot read properties of null (reading '' @ [0x27] @ str ''title''
                   @ [0x27] @ str '')''))"
    by (simp only: search_of_body 1 sum.case)
  have 4: "errorText (str ''cats'')
           (Error (str ''Cannot read properties of null (reading '' @ [0x27] @ str ''title''
                   @ [0x27] @ str '')''))
       = str ''Sorry, there was an error performing your search for '' @ dquote
           @ str ''cats'' @ dquote @ str ''. Error: Cannot read properties of null (reading ''
           @ [0x27] @ str ''title'' @ [0x27] @ str '').''"
    by (simp add: errorText_def errorMessage_def str_def)
  from 1 2 3 4 show ?thesis by (simp only: simp_thms)
qed

lemma extract_empty_hint:
  assumes "webResults data = Inr ws" and "newsResults data = Inr ns"
    and "videoResults data = Inr vs" and "arrayOf (mixedMain data) = Some []"
  shows "extractBraveResults data count = Inr []"
  using assms by (simp add: extract_sections slice0_def)

text \<open>
  Claim C10. When \<open>mixed.main\<close> is the empty array, the normalization returns the empty
  list whatever the web, news and video lists hold; and a search that passes the rate
  limit and gets a successful response with such a body returns the text that no results
  were found for the query.
\<close>

theorem empty_hint_no_results:
  "(webResults data = Inr ws \<and> newsResults data = Inr ns \<and> videoResults data = Inr vs
      \<and> arrayOf (mixedMain data) = Some [] \<longrightarrow>
      extractBraveResults data count = Inr [])
   \<and> (fst (checkRateLimit cfg now rc) = Inr ()
        \<and> fetch (buildRequest cfg (sanitizeQuery cfg query) (countOrDefault cfg countArg))
            = Inr response
        \<and> ok response \<and> json response = Inr data
        \<and> webResults data = Inr ws \<and> newsResults data = Inr ns \<and> videoResults data = Inr vs
        \<and> arrayOf (mixedMain data) = Some [] \<longrightarrow>
      fst (performWebSearch cfg now fetch rc query countArg safeSearchArg)
        = str ''No results found for '' @ dquote @ query @ dquote
            @ str ''. Try using different keywords or check your spelling.'')"
proof (intro conjI impI)
  assume "webResults data = Inr ws \<and> newsResults data = Inr ns \<and> videoResults data = Inr vs
      \<and> arrayOf (mixedMain data) = Some []"
  then show "extractBraveResults data count = Inr []"
    by (auto intro: extract_empty_hint)
next
  assume a: "fst (checkRateLimit cfg now rc) = Inr ()
        \<and> fetch (buildRequest cfg (sanitizeQuery cfg query) (countOrDefault cfg countArg))
            = Inr response
        \<and> ok response \<and> json response = Inr data
        \<and> webResults data = Inr ws \<and> newsResults data = Inr ns \<and> videoResults data = Inr vs
        \<and> arrayOf (mixedMain data) = Some []"
  then have "extractBraveResults data (countOrDefault cfg countArg) = Inr []"
    by (auto intro: extract_empty_hint)
  with a have "snd (fetchBraveSearchResults cfg fetch (sanitizeQuery cfg query)
                    (countOrDefault cfg countArg)) = Inr []"
    by (simp add: fetch_ok)
  with a have "fst (tryBody cfg now fetch rc query (countOrDefault cfg countArg))
      = Inr (noResultsText query)"
    by (simp add: tryBody_passed)
  then show "fst (performWebSearch cfg now fetch rc query countArg safeSearchArg)
        = str ''No results found for '' @ dquote @ query @ dquote
            @ str ''. Try using different keywords or check your spelling.''"
    by (simp add: performWebSearch_text noResultsText_def)
qed

theorem empty_hint_no_results_witness:
  "arrayOf (mixedMain (exampleData (exampleMixed []))) = Some []
   \<and> webResults (exampleData (exampleMixed []))
       = Inr [exampleResult Web ''a'', exampleResult Web ''b'']
   \<and> extractBraveResults (exampleData (exampleMixed [])) 5 = Inr []
   \<and> fst (checkRateLimit (config False []) 0 startState) = Inr ()
   \<and> fst (performWebSearch (config False []) 0
            (\<lambda>request. Inr (okResponse (exampleData (exampleMixed []))))
            startState (str ''cats'') None None)
       = str ''No results found for '' @ dquote @ str ''cats'' @ dquote
           @ str ''. Try using different keywords or check your spelling.''"
proof -
  let ?data = "exampleData (exampleMixed [])"
  let ?response = "okResponse ?data"
  let ?fetch = "\<lambda>request :: Request. (Inr ?response :: thrown + Response)"
  let ?cfg = "config False []"
  let ?ws = "[exampleResult Web ''a'', exampleResult Web ''b'']"
  let ?ns = "[exampleResult News ''c'']"
  let ?vs = "[exampleResult Video ''v'']"
  have s: "webResults ?data = Inr ?ws \<and> newsResults ?data = Inr ?ns
      \<and> videoResults ?data = Inr ?vs \<and> arrayOf (mixedMain ?data) = Some []"
    by (simp add: example_sections example_main)
  have h: "fst (checkRateLimit ?cfg 0 startState) = Inr ()
        \<and> ?fetch (buildRequest ?cfg (sanitizeQuery ?cfg (str ''cats'')) (countOrDefault ?cfg None))
            = Inr ?response
        \<and> ok ?response \<and> json ?response = Inr ?data
        \<and> webResults ?data = Inr ?ws \<and> newsResults ?data = Inr ?ns
        \<and> videoResults ?data = Inr ?vs \<and> arrayOf (mixedMain ?data) = Some []"
    using s by (simp add: start_passes ok_okResponse)
  from empty_hint_no_results
    [of ?data ?ws ?ns ?vs 5 ?cfg 0 startState ?fetch "str ''cats''" None ?response None] s h
  show ?thesis by blast
qed

lemma null_web_element:
  "extractBraveResults (JObj [(str ''web'', JArr [JNull])]) count
     = Inl (readError (str ''title''))"
  by (simp add: extractBraveResults_def webResults_object getOwn_def arrayOf_def webResult_def)

lemma untitled_results: "extractBraveResults untitledData 5 = Inr [untitledResult]"
  by (simp add: untitledData_def untitledResult_def extractBraveResults_def webResults_object
      newsResults_object videoResults_object mixedMain_def getOwn_def getOpt_def arrayOf_def
      webResult_def descriptionOr_def truthy_def slice0_def str_def)

lemma untitled_format:
  "formatSearchResults query [untitledResult]
     = Inl (Error (str ''Cannot convert object to primitive value''))"
  by (simp add: formatSearchResults_def resultText_def untitledResult_def template_def str_def)

text \<open>
  Claim C1. \<open>performWebSearch\<close> returns a text in every case: what the \<open>try\<close> block
  returns, or, when the block throws, the error text, which holds the query as it was
  given (not the sanitized one) and the message of what was thrown. The block throws
  when the rate limit check fails, when the network call fails, when the provider's
  status is not a success, when the body does not parse, when the normalization throws
  and when the formatting throws; in each of these cases the text returned is that error
  text.
\<close>

theorem performWebSearch_never_raises:
  "fst (performWebSearch cfg now fetch rc query countArg safeSearchArg)
     = (case fst (tryBody cfg now fetch rc query (countOrDefault cfg countArg)) of
          Inl e \<Rightarrow> str ''Sorry, there was an error performing your search for '' @ dquote
                     @ query @ dquote @ str ''. Error: '' @ errorMessage e @ str ''.''
        | Inr text \<Rightarrow> text)
   \<and> (fst (checkRateLimit cfg now rc) = Inl e \<longrightarrow>
        e = Error (str ''Rate limit exceeded'')
        \<and> fst (performWebSearch cfg now fetch rc query countArg safeSearchArg)
            = errorText query e)
   \<and> (fst (checkRateLimit cfg now rc) = Inr ()
        \<and> fetch (buildRequest cfg (sanitizeQuery cfg query) (countOrDefault cfg countArg)) = Inl e
      \<longrightarrow> fst (performWebSearch cfg now fetch rc query countArg safeSearchArg)
            = errorText query e)
   \<and> (fst (checkRateLimit cfg now rc) = Inr ()
        \<and> fetch (buildRequest cfg (sanitizeQuery cfg query) (countOrDefault cfg countArg))
            = Inr response
        \<and> \<not> ok response
      \<longrightarrow> fst (performWebSearch cfg now fetch rc query countArg safeSearchArg)
            = errorText query
                (Error (if status response = 401
                        then str ''Brave Search API: Unauthorized - check your API key''
                        else if status response = 429
                        then str ''Brave Search API: Rate limit exceeded''
                        else str ''Brave Search API error: '' @ showInt (status response)
                             @ str '' '' @ statusText response)))
   \<and> (fst (checkRateLimit cfg now rc) = Inr ()
        \<and> fetch (buildRequest cfg (sanitizeQuery cfg query) (countOrDefault cfg countArg))
            = Inr response
        \<and> ok response \<and> json response = Inl e
      \<longrightarrow> fst (performWebSearch cfg now fetch rc query countArg safeSearchArg)
            = errorText query e)
   \<and> (fst (checkRateLimit cfg now rc) = Inr ()
        \<and> fetch (buildRequest cfg (sanitizeQuery cfg query) (countOrDefault cfg countArg))
            = Inr response
        \<and> ok response \<and> json response = Inr data
        \<and> extractBraveResults data (countOrDefault cfg countArg) = Inl e
      \<longrightarrow> fst (performWebSearch cfg now fetch rc query countArg safeSearchArg)
            = errorText query e)
   \<and> (fst (checkRateLimit cfg now rc) = Inr ()
        \<and> fetch (buildRequest cfg (sanitizeQuery cfg query) (countOrDefault cfg countArg))
            = Inr response
        \<and> ok response \<and> json response = Inr data
        \<and> extractBraveResults data (countOrDefault cfg countArg) = Inr results
        \<and> results \<noteq> [] \<and> formatSearchResults query results = Inl e
      \<longrightarrow> fst (performWebSearch cfg now fetch rc query countArg safeSearchArg)
            = errorText query e)
   \<and> errorText query e
       = str ''Sorry, there was an error performing your search for '' @ dquote
           @ query @ dquote @ str ''. Error: '' @ errorMessage e @ str ''.''"
proof (intro conjI impI)
  show "fst (performWebSearch cfg now fetch rc query countArg safeSearchArg)
     = (case fst (tryBody cfg now fetch rc query (countOrDefault cfg countArg)) of
          Inl e \<Rightarrow> str ''Sorry, there was an error performing your search for '' @ dquote
                     @ query @ dquote @ str ''. Error: '' @ errorMessage e @ str ''.''
        | Inr text \<Rightarrow> text)"
    by (simp add: performWebSearch_text errorText_def split: sum.splits)
next
  assume a: "fst (checkRateLimit cfg now rc) = Inl e"
  then show "e = Error (str ''Rate limit exceeded'')" by (rule checkRateLimit_error)
  from a show "fst (performWebSearch cfg now fetch rc query countArg safeSearchArg)
      = errorText query e"
    by (simp add: performWebSearch_text tryBody_limited)
next
  assume "fst (checkRateLimit cfg now rc) = Inr ()
        \<and> fetch (buildRequest cfg (sanitizeQuery cfg query) (countOrDefault cfg countArg)) = Inl e"
  then show "fst (performWebSearch cfg now fetch rc query countArg safeSearchArg)
      = errorText query e"
    by (simp add: performWebSearch_text tryBody_passed fetch_thrown)
next
  assume "fst (checkRateLimit cfg now rc) = Inr ()
        \<and> fetch (buildRequest cfg (sanitizeQuery cfg query) (countOrDefault cfg countArg))
            = Inr response
        \<and> \<not> ok response"
  then show "fst (performWebSearch cfg now fetch rc query countArg safeSearchArg)
            = errorText query
                (Error (if status response = 401
                        then str ''Brave Search API: Unauthorized - check your API key''
                        else if status response = 429
                        then str ''Brave Search API: Rate limit exceeded''
                        else str ''Brave Search API error: '' @ showInt (status response)
                             @ str '' '' @ statusText response))"
    by (simp add: performWebSearch_text tryBody_passed fetch_not_ok)
next
  assume "fst (checkRateLimit cfg now rc) = Inr ()
        \<and> fetch (buildRequest cfg (sanitizeQuery cfg query) (countOrDefault cfg countArg))
            = Inr response
        \<and> ok response \<and> json response = Inl e"
  then show "fst (performWebSearch cfg now fetch rc query countArg safeSearchArg)
      = errorText query e"
    by (simp add: performWebSearch_text tryBody_passed fetch_unparsed)
next
  assume "fst (checkRateLimit cfg now rc) = Inr ()
        \<and> fetch (buildRequest cfg (sanitizeQuery cfg query) (countOrDefault cfg countArg))
            = Inr response
        \<and> ok response \<and> json response = Inr data
        \<and> extractBraveResults data (countOrDefault cfg countArg) = Inl e"
  then show "fst (performWebSearch cfg now fetch rc query countArg safeSearchArg)
      = errorText query e"
    by (simp add: performWebSearch_text tryBody_passed fetch_ok)
next
  assume "fst (checkRateLimit cfg now rc) = Inr ()
        \<and> fetch (buildRequest cfg (sanitizeQuery cfg query) (countOrDefault cfg countArg))
            = Inr response
        \<and> ok response \<and> json response = Inr data
        \<and> extractBraveResults data (countOrDefault cfg countArg) = Inr results
        \<and> results \<noteq> [] \<and> formatSearchResults query results = Inl e"
  then show "fst (performWebSearch cfg now fetch rc query countArg safeSearchArg)
      = errorText query e"
    by (simp add: performWebSearch_text tryBody_passed fetch_ok)
next
  show "errorText query e
       = str ''Sorry, there was an error performing your search for '' @ dquote
           @ query @ dquote @ str ''. Error: '' @ errorMessage e @ str ''.''"
    by (simp add: errorText_def)
qed

theorem performWebSearch_never_raises_witness:
  "fst (checkRateLimit (config False []) 10 \<lparr> second = 20, month = 20, lastReset = 0 \<rparr>)
     = Inl (Error (str ''Rate limit exceeded''))
   \<and> fst (performWebSearch (config False []) 10 (\<lambda>request. Inl (NonError (str ''offline'')))
            \<lparr> second = 20, month = 20, lastReset = 0 \<rparr> (str ''  cats  '') None None)
       = str ''Sorry, there was an error performing your search for '' @ dquote
           @ str ''  cats  '' @ dquote @ str ''. Error: Rate limit exceeded.''
   \<and> fst (checkRateLimit (config False []) 0 startState) = Inr ()
   \<and> fst (performWebSearch (config False []) 0 (\<lambda>request. Inl (NonError (str ''offline'')))
            startState (str ''  cats  '') None None)
       = str ''Sorry, there was an error performing your search for '' @ dquote
           @ str ''  cats  '' @ dquote @ str ''. Error: offline.''
   \<and> fst (performWebSearch (config False []) 0
            (\<lambda>request. Inr \<lparr> status = 503, statusText = str ''Service Unavailable'',
                                json = Inl (Error (str ''Unexpected end of JSON input'')) \<rparr>)
            startState (str ''  cats  '') None None)
       = str ''Sorry, there was an error performing your search for '' @ dquote
           @ str ''  cats  '' @ dquote
           @ str ''. Error: Brave Search API error: 503 Service Unavailable.''
   \<and> fst (performWebSearch (config False []) 0
            (\<lambda>request. Inr \<lparr> status = 200, statusText = str ''OK'',
                                json = Inl (Error (str ''Unexpected end of JSON input'')) \<rparr>)
            startState (str ''  cats  '') None None)
       = str ''Sorry, there was an error performing your search for '' @ dquote
           @ str ''  cats  '' @ dquote @ str ''. Error: Unexpected end of JSON input.''
   \<and> fst (performWebSearch (config False []) 0
            (\<lambda>request. Inr (okResponse (JObj [(str ''web'', JArr [JNull])])))
            startState (str ''  cats  '') None None)
       = str ''Sorry, there was an error performing your search for '' @ dquote
           @ str ''  cats  '' @ dquote
           @ str ''. Error: Cannot read properties of null (reading '' @ [0x27] @ str ''title''
           @ [0x27] @ str '').''
   \<and> fst (performWebSearch (config False []) 0
            (\<lambda>request. Inr (okResponse untitledData))
            startState (str ''  cats  '') None None)
       = str ''Sorry, there was an error performing your search for '' @ dquote
           @ str ''  cats  '' @ dquote
           @ str ''. Error: Cannot convert object to primitive value.''"
proof -
  let ?cfg = "config False []"
  let ?full = "\<lparr> second = 20, month = 20, lastReset = 0 \<rparr>"
  let ?q = "str ''  cats  ''"
  let ?off = "\<lambda>request :: Request. (Inl (NonError (str ''offline'')) :: thrown + Response)"
  let ?r503 = "\<lparr> status = 503, statusText = str ''Service Unavailable'',
                  json = Inl (Error (str ''Unexpected end of JSON input'')) \<rparr>"
  let ?r200 = "\<lparr> status = 200, statusText = str ''OK'',
                  json = Inl (Error (str ''Unexpected end of JSON input'')) \<rparr>"
  let ?f503 = "\<lambda>request :: Request. (Inr ?r503 :: thrown + Response)"
  let ?f200 = "\<lambda>request :: Request. (Inr ?r200 :: thrown + Response)"
  have lim: "fst (checkRateLimit ?cfg 10 ?full) = Inl (Error (str ''Rate limit exceeded''))"
    by (simp add: checkRateLimit_def resetWindow_def config_def)
  have pass: "fst (checkRateLimit ?cfg 0 startState) = Inr ()"
    by (simp add: checkRateLimit_def resetWindow_def config_def startState_def)
  have s503: "showInt 503 = str ''503''"
    by (simp add: showInt_def showNat.simps str_def)
  from performWebSearch_never_raises
    [of ?cfg 10 ?off ?full ?q None None "Error (str ''Rate limit exceeded'')"] lim
  have 1: "fst (performWebSearch ?cfg 10 ?off ?full ?q None None)
      = errorText ?q (Error (str ''Rate limit exceeded''))"
    by blast
  from performWebSearch_never_raises [of ?cfg 0 ?off startState ?q None None "NonError (str ''offline'')"]
    pass
  have 2: "fst (performWebSearch ?cfg 0 ?off startState ?q None None)
      = errorText ?q (NonError (str ''offline''))"
    by blast
  have h3: "fst (checkRateLimit ?cfg 0 startState) = Inr ()
      \<and> ?f503 (buildRequest ?cfg (sanitizeQuery ?cfg ?q) (countOrDefault ?cfg None)) = Inr ?r503
      \<and> \<not> ok ?r503"
    using pass by (simp add: ok_def)
  from performWebSearch_never_raises
    [of ?cfg 0 ?f503 startState ?q None None "Error []" ?r503] h3
  have "fst (performWebSearch ?cfg 0 ?f503 startState ?q None None)
      = errorText ?q
          (Error (if status ?r503 = 401
                  then str ''Brave Search API: Unauthorized - check your API key''
                  else if status ?r503 = 429
                  then str ''Brave Search API: Rate limit exceeded''
                  else str ''Brave Search API error: '' @ showInt (status ?r503)
                       @ str '' '' @ statusText ?r503))"
    by blast
  then have 3: "fst (performWebSearch ?cfg 0 ?f503 startState ?q None None)
      = errorText ?q (Error (str ''Brave Search API error: '' @ showInt 503
                             @ str '' '' @ str ''Service Unavailable''))"
    by simp
  have h4: "fst (checkRateLimit ?cfg 0 startState) = Inr ()
      \<and> ?f200 (buildRequest ?cfg (sanitizeQuery ?cfg ?q) (countOrDefault ?cfg None)) = Inr ?r200
      \<and> ok ?r200 \<and> json ?r200 = Inl (Error (str ''Unexpected end of JSON input''))"
    using pass by (simp add: ok_def)
  from performWebSearch_never_raises
    [of ?cfg 0 ?f200 startState ?q None None "Error (str ''Unexpected end of JSON input'')" ?r200]
    h4
  have 4: "fst (performWebSearch ?cfg 0 ?f200 startState ?q None None)
      = errorText ?q (Error (str ''Unexpected end of JSON input''))"
    by blast
  let ?nullData = "JObj [(str ''web'', JArr [JNull])]"
  let ?fnull = "\<lambda>request :: Request. (Inr (okResponse ?nullData) :: thrown + Response)"
  let ?funt = "\<lambda>request :: Request. (Inr (okResponse untitledData) :: thrown + Response)"
  have c5: "countOrDefault ?cfg None = 5" by (simp add: countOrDefault_def config_def)
  have h5: "fst (checkRateLimit ?cfg 0 startState) = Inr ()
      \<and> ?fnull (buildRequest ?cfg (sanitizeQuery ?cfg ?q) (countOrDefault ?cfg None))
          = Inr (okResponse ?nullData)
      \<and> ok (okResponse ?nullData) \<and> json (okResponse ?nullData) = Inr ?nullData
      \<and> extractBraveResults ?nullData (countOrDefault ?cfg None)
          = Inl (readError (str ''title''))"
    using pass by (simp add: ok_okResponse c5 null_web_element)
  from performWebSearch_never_raises
    [of ?cfg 0 ?fnull startState ?q None None "readError (str ''title'')" "okResponse ?nullData"
        ?nullData "[]"]
    h5
  have 5: "fst (performWebSearch ?cfg 0 ?fnull startState ?q None None)
      = errorText ?q (readError (str ''title''))"
    by blast
  have h6: "fst (checkRateLimit ?cfg 0 startState) = Inr ()
      \<and> ?funt (buildRequest ?cfg (sanitizeQuery ?cfg ?q) (countOrDefault ?cfg None))
          = Inr (okResponse untitledData)
      \<and> ok (okResponse untitledData) \<and> json (okResponse untitledData) = Inr untitledData
      \<and> extractBraveResults untitledData (countOrDefault ?cfg None) = Inr [untitledResult]
      \<and> [untitledResult] \<noteq> []
      \<and> formatSearchResults ?q [untitledResult]
          = Inl (Error (str ''Cannot convert object to primitive value''))"
    using pass by (simp add: ok_okResponse c5 untitled_results untitled_format)
  from performWebSearch_never_raises
    [of ?cfg 0 ?funt startState ?q None None
        "Error (str ''Cannot convert object to primitive value'')" "okResponse untitledData"
        untitledData "[untitledResult]"]
    h6
  have 6: "fst (performWebSearch ?cfg 0 ?funt startState ?q None None)
      = errorText ?q (Error (str ''Cannot convert object to primitive value''))"
    by blast
  from lim pass 1 2 3 4 5 6 s503 show ?thesis
    by (simp add: errorText_def errorMessage_def readError_def str_def)
qed

lemma getParam_setParam: "getParam k (setParam k v ps) = Some v"
  by (induction ps) (auto simp: getParam_def)

lemma performWebSearch_request:
  "snd (snd (performWebSearch cfg now fetch rc query countArg safeSearchArg)) =
     (case fst (checkRateLimit cfg now rc) of
        Inl e \<Rightarrow> None
      | Inr u \<Rightarrow> Some (buildRequest cfg (sanitizeQuery cfg query) (countOrDefault cfg countArg)))"
proof (cases "checkRateLimit cfg now rc")
  case (Pair r rc1)
  show ?thesis
  proof (cases r)
    case (Inl e)
    with Pair show ?thesis by (simp add: performWebSearch_def tryBody_def Let_def)
  next
    case (Inr u)
    with Pair show ?thesis
      by (simp add: performWebSearch_def tryBody_def fetchBraveSearchResults_def Let_def
          split: sum.splits)
  qed
qed

text \<open>
  Claim C9. The safety level that the caller gives has no effect on what
  \<open>performWebSearch\<close> does: two calls that differ in it alone return the same text, leave
  the same state and send the same request; and every request that is sent has the
  parameter \<open>safesearch\<close> set to \<open>strict\<close>.
\<close>

theorem performWebSearch_safesearch_strict:
  "performWebSearch cfg now fetch rc query countArg level1
     = performWebSearch cfg now fetch rc query countArg level2
   \<and> (snd (snd (performWebSearch cfg now fetch rc query countArg level1)) = Some request
      \<longrightarrow> getParam (str ''safesearch'') (searchParams request) = Some (str ''strict''))"
proof (intro conjI impI)
  show "performWebSearch cfg now fetch rc query countArg level1
     = performWebSearch cfg now fetch rc query countArg level2"
    by (simp add: performWebSearch_def Let_def)
next
  assume "snd (snd (performWebSearch cfg now fetch rc query countArg level1)) = Some request"
  then have "request = buildRequest cfg (sanitizeQuery cfg query) (countOrDefault cfg countArg)"
    by (simp add: performWebSearch_request split: sum.splits)
  then show "getParam (str ''safesearch'') (searchParams request) = Some (str ''strict'')"
    by (simp add: buildRequest_def getParam_setParam)
qed

lemma example_request:
  "buildRequest (config False key) (str ''cats'') 5
     = \<lparr> base = str ''https://api.search.brave.com/res/v1/web/search'',
         searchParams = [(str ''q'', str ''cats''), (str ''count'', str ''5''),
                         (str ''safesearch'', str ''strict'')],
         headers = [(str ''X-Subscription-Token'', key),
                    (str ''Accept'', str ''application/json''),
                    (str ''Accept-Encoding'', str ''gzip'')] \<rparr>"
  by (simp add: buildRequest_def config_def showInt_def showNat.simps str_def)

theorem performWebSearch_safesearch_strict_witness:
  "performWebSearch (config False []) 0 (\<lambda>request. Inl (Error (str ''fetch failed'')))
       startState (str ''cats'') (Some 5) (Some off)
     = performWebSearch (config False []) 0 (\<lambda>request. Inl (Error (str ''fetch failed'')))
         startState (str ''cats'') (Some 5) (Some strict)
   \<and> snd (snd (performWebSearch (config False []) 0
                 (\<lambda>request. Inl (Error (str ''fetch failed'')))
                 startState (str ''cats'') (Some 5) (Some off)))
       = Some (buildRequest (config False []) (str ''cats'') 5)
   \<and> getParam (str ''safesearch'')
        (searchParams (buildRequest (config False []) (str ''cats'') 5)) = Some (str ''strict'')"
proof -
  let ?f = "\<lambda>request :: Request. (Inl (Error (str ''fetch failed'')) :: thrown + Response)"
  let ?cfg = "config False []"
  have r: "snd (snd (performWebSearch ?cfg 0 ?f startState (str ''cats'') (Some 5) (Some off)))
       = Some (buildRequest ?cfg (str ''cats'') 5)"
    by (simp add: performWebSearch_request start_passes example_query countOrDefault_def)
  from performWebSearch_safesearch_strict
    [of ?cfg 0 ?f startState "str ''cats''" "Some 5" "Some off" "Some strict"
        "buildRequest ?cfg (str ''cats'') 5"] r
  show ?thesis by blast
qed

text \<open>
  Claim C8 does not hold of the code. The tool handler passes the freshness token as a
  fourth argument to \<open>performWebSearch\<close>, which declares three parameters, so the token
  is dropped: the search with the freshness token \<open>pd\<close> sends the request with the
  parameters \<open>q\<close>, \<open>count\<close> and \<open>safesearch\<close> and no other, and does what the search
  without a freshness token does.
\<close>

theorem freshness_not_sent:
  "snd (snd (brave_web_search (config False key) 0 fetch startState (str ''cats'') (Some 5)
               (Some strict) (Some (str ''pd''))))
     = Some \<lparr> base = str ''https://api.search.brave.com/res/v1/web/search'',
              searchParams = [(str ''q'', str ''cats''), (str ''count'', str ''5''),
                              (str ''safesearch'', str ''strict'')],
              headers = [(str ''X-Subscription-Token'', key),
                         (str ''Accept'', str ''application/json''),
                         (str ''Accept-Encoding'', str ''gzip'')] \<rparr>
   \<and> brave_web_search cfg now fetch rc query countArg safeSearchArg (Some (str ''pd''))
       = brave_web_search cfg now fetch rc query countArg safeSearchArg None"
proof
  have "isWebSearchArgs (config False key) (str ''cats'')"
    by (simp add: isWebSearchArgs_def config_def str_def)
  then have "snd (snd (brave_web_search (config False key) 0 fetch startState (str ''cats'')
                         (Some 5) (Some strict) (Some (str ''pd''))))
      = snd (snd (performWebSearch (config False key) 0 fetch startState (str ''cats'')
                         (Some 5) (Some strict)))"
    by (simp add: brave_web_search_def split: prod.splits)
  also have "\<dots> = Some (buildRequest (config False key) (str ''cats'') 5)"
    by (simp add: performWebSearch_request start_passes example_query countOrDefault_def)
  finally show "snd (snd (brave_web_search (config False key) 0 fetch startState (str ''cats'')
               (Some 5) (Some strict) (Some (str ''pd''))))
     = Some \<lparr> base = str ''https://api.search.brave.com/res/v1/web/search'',
              searchParams = [(str ''q'', str ''cats''), (str ''count'', str ''5''),
                              (str ''safesearch'', str ''strict'')],
              headers = [(str ''X-Subscription-Token'', key),
                         (str ''Accept'', str ''application/json''),
                         (str ''Accept-Encoding'', str ''gzip'')] \<rparr>"
    by (simp only: example_request)
next
  show "brave_web_search cfg now fetch rc query countArg safeSearchArg (Some (str ''pd''))
       = brave_web_search cfg now fetch rc query countArg safeSearchArg None"
    by (simp add: brave_web_search_def)
qed

end
